theory Spec2Isabelle
  imports Complex_Main "HOL-Library.Sublist"
begin

section \<open>News sentiment pipeline: the model\<close>

text \<open>
  A shallow embedding of \<^verbatim>\<open>utils/gemini_service.py\<close> (class \<^verbatim>\<open>GeminiService\<close>) and of the two
  variants of \<^verbatim>\<open>TextToSpeechService.translate_to_hindi\<close>
  (\<^verbatim>\<open>utils/text_to_speech.py\<close> and \<^verbatim>\<open>utils/.ipynb_checkpoints/text_to_speech-checkpoint.py\<close>).

  Conventions.
  \<^item> A Python \<^verbatim>\<open>str\<close> is a HOL \<open>string\<close>, one element per code point.
  \<^item> Everything outside the program is explicit. The record \<open>env\<close> holds what the
    program cannot decide: the hash function, the outcome of each external call, the JSON
    parser, the iteration order of a Python \<^verbatim>\<open>set\<close> and the printing of numbers. The record
    \<open>world\<close> is the state the program reads and changes: the log of external calls, the
    log of \<^verbatim>\<open>time.sleep\<close> durations and the two cache directories.
  \<^item> A raised exception is a value \<open>Inl e\<close> of the result type \<open>error + 'a\<close>.
  \<^item> Numbers are exact rationals: a finite Python \<^verbatim>\<open>float\<close> or \<^verbatim>\<open>int\<close> is the
    rational it denotes, and comparisons with the constants 1.5, 2.5, 3.5, 4.5 are exact.
    The rounding of float sums and quotients is not modelled.
\<close>

subsection \<open>Values, errors, environment and state\<close>

datatype json =
    JNull
  | JBool bool
  | JNum rat
  | JStr string
  | JArr "json list"
  | JObj "(string \<times> json) list"

datatype service = Gemini | GoogleTranslate | IndicNLP | Argos | LibreTranslate | MyMemory

text \<open>An external call returns a text or raises an exception \<open>e\<close>; \<open>Fails\<close> carries \<^verbatim>\<open>str(e)\<close>.\<close>

datatype outcome = Reply string | Fails string

datatype error =
    ApiError string
  | MaxRetries
  | JSONDecodeError
  | TypeError
  | KeyError
  | TranslationFailed

record env =
  md5 :: "string \<Rightarrow> string"
  respond :: "service \<Rightarrow> nat \<Rightarrow> string \<Rightarrow> outcome"
  json_loads :: "string \<Rightarrow> json option"
  set_order :: "string list \<Rightarrow> string \<Rightarrow> nat"
  str_num :: "rat \<Rightarrow> string"
  fmt_2f :: "rat \<Rightarrow> string"

record world =
  calls :: "(service \<times> string) list"
  slept :: "nat list"
  cache :: "string \<Rightarrow> json option"
  tcache :: "string \<Rightarrow> string option"

text \<open>
  \<open>respond E s n p\<close> is the outcome of sending \<open>p\<close> to service \<open>s\<close> when \<open>n\<close> external calls
  have been made before; every call is appended to the log.
\<close>

definition external_call :: "env \<Rightarrow> service \<Rightarrow> string \<Rightarrow> world \<Rightarrow> outcome \<times> world" where
  "external_call E s p w = (respond E s (length (calls w)) p, w\<lparr>calls := calls w @ [(s, p)]\<rparr>)"

definition sleep :: "nat \<Rightarrow> world \<Rightarrow> world" where
  "sleep secs w = w\<lparr>slept := slept w @ [secs]\<rparr>"

subsection \<open>Python string and dictionary primitives\<close>

definition starts_with :: "string \<Rightarrow> string \<Rightarrow> bool" where
  "starts_with sub s = (take (length sub) s = sub)"

text \<open>\<^verbatim>\<open>sub in s\<close> on strings.\<close>

fun contains :: "string \<Rightarrow> string \<Rightarrow> bool" where
  "contains sub [] = (sub = [])"
| "contains sub (c # cs) = (starts_with sub (c # cs) \<or> contains sub cs)"

text \<open>
  \<^verbatim>\<open>s.split(sep)\<close> for a non-empty separator: \<open>split_from sep cur s\<close> scans \<open>s\<close> from the left
  with the piece \<open>cur\<close> read so far. (Python raises ValueError on an empty separator; the
  program only splits on two fixed non-empty literals.)
\<close>

function split_from :: "string \<Rightarrow> string \<Rightarrow> string \<Rightarrow> string list" where
  "split_from sep cur [] = [cur]"
| "split_from sep cur (c # cs) =
     (if sep \<noteq> [] \<and> starts_with sep (c # cs)
      then cur # split_from sep [] (drop (length sep) (c # cs))
      else split_from sep (cur @ [c]) cs)"
  by pat_completeness auto
termination
  by (relation "measure (\<lambda>(sep, cur, s). length s)") auto

definition split_str :: "string \<Rightarrow> string \<Rightarrow> string list" where
  "split_str sep s = split_from sep [] s"

text \<open>\<^verbatim>\<open>str.isspace\<close> on the code points below 256, and \<^verbatim>\<open>str.strip()\<close>.\<close>

definition isspace :: "char \<Rightarrow> bool" where
  "isspace c = (let n = (of_char c :: nat) in
     (9 \<le> n \<and> n \<le> 13) \<or> (28 \<le> n \<and> n \<le> 32) \<or> n = 133 \<or> n = 160)"

definition strip :: "string \<Rightarrow> string" where
  "strip s = rev (dropWhile isspace (rev (dropWhile isspace s)))"

text \<open>\<^verbatim>\<open>sep.join(xs)\<close>.\<close>

fun join :: "string \<Rightarrow> string list \<Rightarrow> string" where
  "join sep [] = []"
| "join sep [x] = x"
| "join sep (x # y # ys) = x @ sep @ join sep (y # ys)"

text \<open>Truth value of a parsed JSON value in a Python condition.\<close>

fun truthy :: "json \<Rightarrow> bool" where
  "truthy JNull = False"
| "truthy (JBool b) = b"
| "truthy (JNum r) = (r \<noteq> 0)"
| "truthy (JStr s) = (s \<noteq> [])"
| "truthy (JArr xs) = (xs \<noteq> [])"
| "truthy (JObj kvs) = (kvs \<noteq> [])"

text \<open>
  A Python \<^verbatim>\<open>dict\<close> is an association list: \<open>map_of\<close> reads a key, \<open>dict_set\<close> is
  \<^verbatim>\<open>d[k] = v\<close> (an existing key keeps its place, a new key goes last).
\<close>

fun dict_set :: "string \<Rightarrow> json \<Rightarrow> (string \<times> json) list \<Rightarrow> (string \<times> json) list" where
  "dict_set k v [] = [(k, v)]"
| "dict_set k v ((k', v') # kvs) = (if k = k' then (k, v) # kvs else (k', v') # dict_set k v kvs)"

text \<open>The value of a number in a comparison: \<^verbatim>\<open>bool\<close> is a subtype of \<^verbatim>\<open>int\<close>;
  comparing any other value with a float raises TypeError.\<close>

fun num_of :: "json \<Rightarrow> rat option" where
  "num_of (JNum r) = Some r"
| "num_of (JBool b) = Some (if b then 1 else 0)"
| "num_of _ = None"

subsection \<open>\<^verbatim>\<open>GeminiService\<close>: retry wrapper and cache\<close>

definition rate_limit_retries :: nat where
  "rate_limit_retries = 3"

definition rate_limit_backoff :: nat where
  "rate_limit_backoff = 2"

definition generate_content :: "env \<Rightarrow> string \<Rightarrow> world \<Rightarrow> outcome \<times> world" where
  "generate_content E prompt w = external_call E Gemini prompt w"

text \<open>The \<^verbatim>\<open>while\<close> loop of \<^verbatim>\<open>_call_api_with_retry\<close>, from the value \<open>retries\<close> on.\<close>

function call_api_loop :: "env \<Rightarrow> string \<Rightarrow> nat \<Rightarrow> world \<Rightarrow> (error + string) \<times> world" where
  "call_api_loop E prompt retries w =
     (if retries \<le> rate_limit_retries then
        (case generate_content E prompt w of
           (Reply text, w') \<Rightarrow> (Inr text, w')
         | (Fails msg, w') \<Rightarrow>
             if contains ''429'' msg \<and> retries < rate_limit_retries
             then call_api_loop E prompt (retries + 1) (sleep (rate_limit_backoff * 2 ^ retries) w')
             else (Inl (ApiError msg), w'))
      else (Inl MaxRetries, w))"
  by pat_completeness auto
termination
  by (relation "measure (\<lambda>(E, prompt, retries, w). Suc rate_limit_retries - retries)") auto

definition call_api_with_retry :: "env \<Rightarrow> string \<Rightarrow> world \<Rightarrow> (error + string) \<times> world" where
  "call_api_with_retry E prompt w = call_api_loop E prompt 0 w"

definition get_cache_key :: "env \<Rightarrow> string \<Rightarrow> string" where
  "get_cache_key E text = md5 E text"

text \<open>The cache store works: a file that was written is read back unchanged.\<close>

definition check_cache :: "string \<Rightarrow> world \<Rightarrow> json option" where
  "check_cache cache_key w = cache w cache_key"

definition save_to_cache :: "string \<Rightarrow> json \<Rightarrow> world \<Rightarrow> world" where
  "save_to_cache cache_key data w = w\<lparr>cache := (cache w)(cache_key \<mapsto> data)\<rparr>"

subsection \<open>\<^verbatim>\<open>GeminiService.analyze_article\<close>\<close>

text \<open>The f-string of the prompt, with the literal text of the source.\<close>

definition analysis_prompt :: "string \<Rightarrow> string \<Rightarrow> string" where
  \<open>analysis_prompt title content = concat
    [''\<newline>'',
     ''            Title: '',
     title,
     ''\<newline>'',
     ''            \<newline>'',
     ''            Content: '',
     take 4000 content,
     ''... (truncated)\<newline>'',
     ''            \<newline>'',
     ''            Analyze the above news article about a company and provide the following:\<newline>'',
     ''            1. A concise summary of the article (2-3 sentences)\<newline>'',
     ''            2. The sentiment of the article on a 5-point scale - CRITICAL INSTRUCTION: DO NOT DEFAULT TO NEUTRAL. Look for sentiment signals and lean toward assigning a non-neutral sentiment unless truly warranted:\<newline>'',
     ''               - Very Negative (1): Highly critical, reporting major problems or failures\<newline>'',
     ''               - Negative (2): Reporting problems, challenges, or disappointing performance\<newline>'',
     ''               - Neutral (3): Balanced reporting of facts with minimal bias\<newline>'',
     ''               - Positive (4): Reporting success, growth, or positive developments\<newline>'',
     ''               - Very Positive (5): Highly favorable, reporting exceptional performance or achievements\<newline>'',
     ''            3. A list of 2-4 main topics or themes mentioned in the article\<newline>'',
     ''            4. Key sentiment indicators - IMPORTANT: Identify SPECIFIC words, phrases, or facts that convey sentiment, particularly those that suggest non-neutral attitudes\<newline>'',
     ''            \<newline>'',
     ''            Format your response as a JSON object with these fields:\<newline>'',
     ''            {\<newline>'',
     ''              "Title": "'',
     title,
     ''",\<newline>'',
     ''              "Summary": "Concise summary here",\<newline>'',
     ''              "Sentiment": "Very Negative/Negative/Neutral/Positive/Very Positive",\<newline>'',
     ''              "Sentiment_Score": A number from 1-5 where 1=Very Negative, 3=Neutral, 5=Very Positive,\<newline>'',
     ''              "Topics": ["Topic1", "Topic2", ...],\<newline>'',
     ''              "Sentiment_Indicators": ["Indicator1", "Indicator2", ...]\<newline>'',
     ''            }\<newline>'',
     ''            \<newline>'',
     ''            IMPORTANT GUIDELINES:\<newline>'',
     ''            - Assign sentiment scores of 1, 2, 4, or 5 whenever possible\<newline>'',
     ''            - Use 3 (Neutral) ONLY when the article is truly balanced with equal positive and negative elements\<newline>'',
     ''            - Look for subtle indicators of sentiment in word choice and emphasis\<newline>'',
     ''            - Consider industry context (e.g., "steady growth" is positive; "only grew by 2%" suggests disappointment)\<newline>'',
     ''            \<newline>'',
     ''            Do not include any explanation or other text outside the JSON object.\<newline>'',
     ''            '']\<close>

text \<open>Removal of a Markdown code fence around the reply, as both operations do it.\<close>

definition strip_fences :: "string \<Rightarrow> string" where
  "strip_fences response_text =
     (if contains ''```json'' response_text
      then strip (hd (split_str ''```'' (split_str ''```json'' response_text ! 1)))
      else if contains ''```'' response_text
      then strip (hd (split_str ''```'' (split_str ''```'' response_text ! 1)))
      else response_text)"

definition required_fields :: "string list" where
  "required_fields =
     [''Title'', ''Summary'', ''Sentiment'', ''Sentiment_Score'', ''Topics'', ''Sentiment_Indicators'']"

definition default_for :: "string \<Rightarrow> json" where
  "default_for field =
     (if field \<in> set [''Topics'', ''Sentiment_Indicators''] then JArr []
      else if field = ''Sentiment_Score'' then JNum 3
      else JStr [])"

definition fill_field :: "(string \<times> json) list \<Rightarrow> string \<Rightarrow> (string \<times> json) list" where
  "fill_field result field =
     (case map_of result field of
        None \<Rightarrow> dict_set field (default_for field) result
      | Some v \<Rightarrow> result)"

definition preserve_title :: "string \<Rightarrow> (string \<times> json) list \<Rightarrow> (string \<times> json) list" where
  "preserve_title title result =
     (if (case map_of result ''Title'' of None \<Rightarrow> True | Some v \<Rightarrow> \<not> truthy v)
      then dict_set ''Title'' (JStr title) result
      else result)"

text \<open>The threshold table of the post-processing step.\<close>

definition label_for_score :: "rat \<Rightarrow> string" where
  "label_for_score score =
     (if score \<le> 3 / 2 then ''Very Negative''
      else if score \<le> 5 / 2 then ''Negative''
      else if score \<le> 7 / 2 then ''Neutral''
      else if score \<le> 9 / 2 then ''Positive''
      else ''Very Positive'')"

text \<open>\<^verbatim>\<open>if cached_result:\<close> takes a cached value only when it is truthy.\<close>

definition cache_hit :: "json option \<Rightarrow> json option" where
  "cache_hit cached_result =
     (case cached_result of
        None \<Rightarrow> None
      | Some v \<Rightarrow> if truthy v then Some v else None)"

text \<open>What follows \<^verbatim>\<open>json.loads\<close> in \<^verbatim>\<open>analyze_article\<close>. On a value that is not a
  dict, the membership tests or the item assignments raise TypeError.\<close>

definition postprocess_article :: "string \<Rightarrow> json \<Rightarrow> error + json" where
  "postprocess_article title parsed =
     (case parsed of
        JObj d \<Rightarrow>
          (let result = preserve_title title (foldl fill_field d required_fields) in
           case map_of result ''Sentiment_Score'' of
             None \<Rightarrow> Inl KeyError
           | Some score \<Rightarrow>
               (case num_of score of
                  None \<Rightarrow> Inl TypeError
                | Some s \<Rightarrow> Inr (JObj (dict_set ''Sentiment'' (JStr (label_for_score s)) result))))
      | _ \<Rightarrow> Inl TypeError)"

definition article_cache_key :: "env \<Rightarrow> string \<Rightarrow> string \<Rightarrow> string" where
  "article_cache_key E title content = get_cache_key E (title @ ''_'' @ take 1000 content)"

definition analyze_article :: "env \<Rightarrow> string \<Rightarrow> string \<Rightarrow> world \<Rightarrow> (error + json) \<times> world" where
  "analyze_article E title content w =
     (let cache_key = article_cache_key E title content in
      case cache_hit (check_cache cache_key w) of
        Some cached_result \<Rightarrow> (Inr cached_result, w)
      | None \<Rightarrow>
          (case call_api_with_retry E (analysis_prompt title content) w of
             (Inl e, w') \<Rightarrow> (Inl e, w')
           | (Inr response_text, w') \<Rightarrow>
               (case json_loads E (strip_fences response_text) of
                  None \<Rightarrow> (Inl JSONDecodeError, w')
                | Some parsed \<Rightarrow>
                    (case postprocess_article title parsed of
                       Inl e \<Rightarrow> (Inl e, w')
                     | Inr result \<Rightarrow> (Inr result, save_to_cache cache_key result w')))))"

subsection \<open>\<^verbatim>\<open>GeminiService.generate_comparative_analysis\<close>\<close>

text \<open>
  An input article is a dict read with \<^verbatim>\<open>article.get(key, default)\<close>: each key may be
  absent (\<open>None\<close>); a key that is present holds a value of the type the analysis gives it.
\<close>

record article =
  Title :: "string option"
  Summary :: "string option"
  Sentiment :: "string option"
  Sentiment_Score :: "rat option"
  Topics :: "string list option"
  Sentiment_Indicators :: "string list option"

text \<open>\<^verbatim>\<open>d.get(key, default)\<close> on an optional field.\<close>

definition get_or :: "'a \<Rightarrow> 'a option \<Rightarrow> 'a" where
  "get_or dflt field = (case field of None \<Rightarrow> dflt | Some v \<Rightarrow> v)"

fun digit_char :: "nat \<Rightarrow> char" where
  "digit_char d = char_of (48 + d)"

function str_nat :: "nat \<Rightarrow> string" where
  "str_nat n = (if n < 10 then [digit_char n] else str_nat (n div 10) @ [digit_char (n mod 10)])"
  by pat_completeness auto
termination
  by (relation "measure (\<lambda>n. n)") auto

definition comparative_cache_key :: "env \<Rightarrow> string \<Rightarrow> article list \<Rightarrow> string" where
  "comparative_cache_key E company_name articles =
     (let titles = join ''_'' (map (\<lambda>article. take 20 (get_or [] (Title article))) (take 3 articles))
      in get_cache_key E (''comp_'' @ company_name @ ''_'' @ titles))"

text \<open>
  The local variables that the first loop over the articles updates. (The list
  \<^verbatim>\<open>titles_with_sentiment\<close> is appended to but never read, and is left out.)
\<close>

record tally =
  sentiment_dist :: "(string \<times> nat) list"
  total_score :: rat
  all_topics :: "string list"
  all_indicators :: "string list"

definition initial_tally :: tally where
  "initial_tally =
     \<lparr>sentiment_dist =
        [(''Very Positive'', 0), (''Positive'', 0), (''Neutral'', 0), (''Negative'', 0),
         (''Very Negative'', 0)],
      total_score = 0, all_topics = [], all_indicators = []\<rparr>"

text \<open>\<^verbatim>\<open>sentiment_dist[sentiment] += 1\<close> and \<^verbatim>\<open>sentiment_dist[label]\<close>.\<close>

fun increment :: "string \<Rightarrow> (string \<times> nat) list \<Rightarrow> (string \<times> nat) list" where
  "increment k [] = []"
| "increment k ((k', n) # kvs) = (if k = k' then (k', n + 1) # kvs else (k', n) # increment k kvs)"

definition dist_get :: "(string \<times> nat) list \<Rightarrow> string \<Rightarrow> nat" where
  "dist_get counts label = get_or 0 (map_of counts label)"

definition tally_article :: "tally \<Rightarrow> article \<Rightarrow> tally" where
  "tally_article t article =
     (let sentiment = get_or ''Neutral'' (Sentiment article) in
      t\<lparr>sentiment_dist :=
           (if sentiment \<in> set (map fst (sentiment_dist t))
            then increment sentiment (sentiment_dist t)
            else sentiment_dist t),
        total_score := total_score t + get_or 3 (Sentiment_Score article),
        all_topics := all_topics t @ get_or [] (Topics article),
        all_indicators := all_indicators t @ get_or [] (Sentiment_Indicators article)\<rparr>)"

definition tally_articles :: "article list \<Rightarrow> tally" where
  "tally_articles articles = foldl tally_article initial_tally articles"

definition average_score :: "rat \<Rightarrow> article list \<Rightarrow> rat" where
  "average_score score_sum articles =
     (if articles \<noteq> [] then score_sum / of_nat (length articles) else 3)"

text \<open>The digest of one article in the prompt; \<open>i\<close> is the index \<^verbatim>\<open>enumerate\<close> gives it.\<close>

definition article_digest :: "env \<Rightarrow> nat \<Rightarrow> article \<Rightarrow> string" where
  "article_digest E i article =
     (let title = get_or (''Article '' @ str_nat (i + 1)) (Title article);
          sentiment = get_or ''Neutral'' (Sentiment article);
          score = get_or 3 (Sentiment_Score article);
          topics_str = join '', '' (get_or [] (Topics article));
          indicators_str = join '', '' (get_or [] (Sentiment_Indicators article));
          summary = get_or ''No summary available'' (Summary article)
      in concat
        [''Article '', str_nat (i + 1), '': '', title, ''\<newline>'',
         ''- Summary: '', summary, ''\<newline>'',
         ''- Sentiment: '', sentiment, '' (Score: '', str_num E score, ''/5)\<newline>'',
         ''- Topics: '', topics_str, ''\<newline>'',
         ''- Key Indicators: '', indicators_str])"

definition articles_digest :: "env \<Rightarrow> article list \<Rightarrow> string" where
  "articles_digest E articles =
     join ''\<newline>\<newline>'' (map (\<lambda>(i, article). article_digest E i article) (enumerate 0 articles))"

definition comparative_prompt :: "env \<Rightarrow> string \<Rightarrow> string \<Rightarrow> (string \<times> nat) list \<Rightarrow> rat \<Rightarrow> string" where
  \<open>comparative_prompt E company_name articles_text counts avg_sentiment_score = concat
    [''\<newline>'',
     ''            Company: '',
     company_name,
     ''\<newline>'',
     ''            \<newline>'',
     ''            Articles about '',
     company_name,
     '':\<newline>'',
     ''            '',
     articles_text,
     ''\<newline>'',
     ''            \<newline>'',
     ''            TASK: Generate a DETAILED comparative analysis of how news coverage differs across these articles.\<newline>'',
     ''            \<newline>'',
     ''            Focus on:\<newline>'',
     ''            1. How the SAME topics are covered differently (positive in one article, negative in another)\<newline>'',
     ''            2. UNIQUE perspectives or angles that appear in only some articles\<newline>'',
     ''            3. CONFLICTING information or claims between articles\<newline>'',
     ''            4. EMPHASIS differences - what some articles highlight vs. downplay\<newline>'',
     ''            5. TIMELINE differences - how reporting has evolved if articles span different dates\<newline>'',
     ''            \<newline>'',
     ''            DO NOT default to generic analysis. Be SPECIFIC about actual differences found.\<newline>'',
     ''            If articles are similar, identify the subtle ways they still differ in perspective.\<newline>'',
     ''            \<newline>'',
     ''            Format the response as a JSON with these fields:\<newline>'',
     ''            {\<newline>'',
     ''              "Sentiment_Distribution": {\<newline>'',
     ''                "Very Positive": '',
     str_nat (dist_get counts ''Very Positive''),
     '',\<newline>'',
     ''                "Positive": '',
     str_nat (dist_get counts ''Positive''),
     '',\<newline>'',
     ''                "Neutral": '',
     str_nat (dist_get counts ''Neutral''),
     '',\<newline>'',
     ''                "Negative": '',
     str_nat (dist_get counts ''Negative''),
     '',\<newline>'',
     ''                "Very Negative": '',
     str_nat (dist_get counts ''Very Negative''),
     ''\<newline>'',
     ''              },\<newline>'',
     ''              "Average_Sentiment_Score": '',
     fmt_2f E avg_sentiment_score,
     '',\<newline>'',
     ''              "Sentiment_Trend": "Description of overall sentiment pattern across articles",\<newline>'',
     ''              "Coverage_Differences": [\<newline>'',
     ''                {\<newline>'',
     ''                  "Comparison": "Description of a key difference between articles",\<newline>'',
     ''                  "Articles_Involved": ["Article title 1", "Article title 2"],\<newline>'',
     ''                  "Impact": "Impact on overall perception"\<newline>'',
     ''                },\<newline>'',
     ''                {\<newline>'',
     ''                  "Comparison": "Another key difference between articles",\<newline>'',
     ''                  "Articles_Involved": ["Article title 1", "Article title 3"],\<newline>'',
     ''                  "Impact": "Impact on overall perception"\<newline>'',
     ''                }\<newline>'',
     ''              ],\<newline>'',
     ''              "Sentiment_Drivers": {\<newline>'',
     ''                "Positive_Factors": ["Factor1", "Factor2", ...],\<newline>'',
     ''                "Negative_Factors": ["Factor1", "Factor2", ...]\<newline>'',
     ''              },\<newline>'',
     ''              "Topic_Analysis": {\<newline>'',
     ''                "Common_Topics": ["Topic1", "Topic2", ...],\<newline>'',
     ''                "Topic_Sentiment_Map": {\<newline>'',
     ''                  "Topic1": "Positive/Negative/Mixed/Neutral",\<newline>'',
     ''                  "Topic2": "Positive/Negative/Mixed/Neutral",\<newline>'',
     ''                  ...\<newline>'',
     ''                }\<newline>'',
     ''              }\<newline>'',
     ''            }\<newline>'',
     ''            \<newline>'',
     ''            IMPORTANT: Provide at least 3-4 specific, detailed coverage differences in the Coverage_Differences array.\<newline>'',
     ''            Do not include any explanation or other text outside the JSON object.\<newline>'',
     ''            '']\<close>

text \<open>
  \<^verbatim>\<open>list(set(xs))\<close>: the distinct elements of \<open>xs\<close> in the iteration order of the set,
  which depends on the hashes of the strings and is fixed by the environment as a rank.
\<close>

definition list_of_set :: "env \<Rightarrow> string list \<Rightarrow> string list" where
  "list_of_set E xs = sort_key (set_order E xs) (remdups xs)"

definition dist_json :: "(string \<times> nat) list \<Rightarrow> json" where
  "dist_json counts = JObj (map (\<lambda>(label, n). (label, JNum (of_nat n))) counts)"

definition articles_involved :: "article list \<Rightarrow> json" where
  "articles_involved articles =
     JArr (map (\<lambda>article. JStr (get_or ''Unknown'' (Title article))) (take 2 articles))"

definition fallback_difference :: "article list \<Rightarrow> json" where
  "fallback_difference articles =
     JObj [(''Comparison'', JStr ''Differences in reporting emphasis''),
           (''Articles_Involved'', articles_involved articles),
           (''Impact'', JStr ''Creates varied impressions of company priorities'')]"

definition empty_drivers :: json where
  "empty_drivers = JObj [(''Positive_Factors'', JArr []), (''Negative_Factors'', JArr [])]"

definition default_topic_analysis :: "env \<Rightarrow> string list \<Rightarrow> json" where
  "default_topic_analysis E topics =
     JObj [(''Common_Topics'', JArr (map JStr (take 5 (list_of_set E topics)))),
           (''Topic_Sentiment_Map'', JObj [])]"

text \<open>The body of the inner \<^verbatim>\<open>try\<close> after a successful \<^verbatim>\<open>json.loads\<close>. An item
  assignment on a value that is not a dict raises TypeError.\<close>

definition complete_analysis ::
  "env \<Rightarrow> article list \<Rightarrow> tally \<Rightarrow> rat \<Rightarrow> json \<Rightarrow> error + json" where
  "complete_analysis E articles t avg_sentiment_score parsed =
     (case parsed of
        JObj d \<Rightarrow>
          (let result = dict_set ''Sentiment_Distribution'' (dist_json (sentiment_dist t)) d;
               result = dict_set ''Average_Sentiment_Score'' (JNum avg_sentiment_score) result;
               result =
                 (if (case map_of result ''Coverage_Differences'' of
                        None \<Rightarrow> True | Some v \<Rightarrow> \<not> truthy v)
                  then dict_set ''Coverage_Differences'' (JArr [fallback_difference articles]) result
                  else result);
               result =
                 (if map_of result ''Sentiment_Drivers'' = None
                  then dict_set ''Sentiment_Drivers'' empty_drivers result
                  else result);
               result =
                 (if map_of result ''Topic_Analysis'' = None
                  then dict_set ''Topic_Analysis'' (default_topic_analysis E (all_topics t)) result
                  else result)
           in Inr (JObj result))
      | _ \<Rightarrow> Inl TypeError)"

text \<open>The result built in the handler of \<^verbatim>\<open>json.JSONDecodeError\<close>.\<close>

definition basic_result :: "env \<Rightarrow> article list \<Rightarrow> tally \<Rightarrow> rat \<Rightarrow> json" where
  "basic_result E articles t avg_sentiment_score =
     JObj [(''Sentiment_Distribution'', dist_json (sentiment_dist t)),
           (''Average_Sentiment_Score'', JNum avg_sentiment_score),
           (''Sentiment_Trend'', JStr ''Unable to determine due to processing error''),
           (''Coverage_Differences'',
              JArr [JObj [(''Comparison'', JStr ''Analysis encountered an error''),
                          (''Articles_Involved'', articles_involved articles),
                          (''Impact'', JStr ''Complete comparative analysis not available'')]]),
           (''Sentiment_Drivers'', empty_drivers),
           (''Topic_Analysis'', default_topic_analysis E (all_topics t))]"

definition generate_comparative_analysis ::
  "env \<Rightarrow> string \<Rightarrow> article list \<Rightarrow> world \<Rightarrow> (error + json) \<times> world" where
  "generate_comparative_analysis E company_name articles w =
     (let cache_key = comparative_cache_key E company_name articles in
      case cache_hit (check_cache cache_key w) of
        Some cached_result \<Rightarrow> (Inr cached_result, w)
      | None \<Rightarrow>
          (let t = tally_articles articles;
               avg_sentiment_score = average_score (total_score t) articles;
               prompt = comparative_prompt E company_name (articles_digest E articles)
                          (sentiment_dist t) avg_sentiment_score
           in case call_api_with_retry E prompt w of
                (Inl e, w') \<Rightarrow> (Inl e, w')
              | (Inr response_text, w') \<Rightarrow>
                  (case json_loads E (strip_fences response_text) of
                     None \<Rightarrow>
                       (let basic = basic_result E articles t avg_sentiment_score
                        in (Inr basic, save_to_cache cache_key basic w'))
                   | Some parsed \<Rightarrow>
                       (case complete_analysis E articles t avg_sentiment_score parsed of
                          Inl e \<Rightarrow> (Inl e, w')
                        | Inr result \<Rightarrow> (Inr result, save_to_cache cache_key result w')))))"

subsection \<open>\<^verbatim>\<open>TextToSpeechService.translate_to_hindi\<close>, Gemini-only variant\<close>

text \<open>\<^verbatim>\<open>utils/text_to_speech.py\<close>. The translation cache is a directory of its own; a file
  holds \<^verbatim>\<open>{'translation': text}\<close>.\<close>

definition check_translation_cache :: "string \<Rightarrow> world \<Rightarrow> string option" where
  "check_translation_cache cache_key w = tcache w cache_key"

definition save_translation_to_cache :: "string \<Rightarrow> string \<Rightarrow> world \<Rightarrow> world" where
  "save_translation_to_cache cache_key translation w =
     w\<lparr>tcache := (tcache w)(cache_key \<mapsto> translation)\<rparr>"

text \<open>\<^verbatim>\<open>if cached_translation:\<close> takes a cached text only when it is not empty.\<close>

definition translation_hit :: "string option \<Rightarrow> string option" where
  "translation_hit cached_translation =
     (case cached_translation of
        None \<Rightarrow> None
      | Some t \<Rightarrow> if t \<noteq> [] then Some t else None)"

definition translation_cache_key :: "env \<Rightarrow> string \<Rightarrow> string" where
  "translation_cache_key E text = md5 E (take 1000 text)"

definition translate_prompt :: "string \<Rightarrow> string" where
  "translate_prompt text =
     ''Translate the following English text to Hindi. Return ONLY the Hindi translation, no additional comments:\<newline>\<newline>'' @ text"

definition translate_to_hindi :: "env \<Rightarrow> string \<Rightarrow> world \<Rightarrow> (error + string) \<times> world" where
  "translate_to_hindi E text w =
     (let cache_key = translation_cache_key E text in
      case translation_hit (check_translation_cache cache_key w) of
        Some cached_translation \<Rightarrow> (Inr cached_translation, w)
      | None \<Rightarrow>
          (case call_api_with_retry E (translate_prompt text) w of
             (Inr response, w') \<Rightarrow>
               (let hindi_text = strip response
                in (Inr hindi_text, save_translation_to_cache cache_key hindi_text w'))
           | (Inl e, w') \<Rightarrow> (Inl TranslationFailed, w')))"

subsection \<open>\<^verbatim>\<open>TextToSpeechService.translate_to_hindi\<close>, multi-backend variant\<close>

text \<open>
  \<^verbatim>\<open>utils/.ipynb_checkpoints/text_to_speech-checkpoint.py\<close>. The fields of the service
  object that \<^verbatim>\<open>_translate_chunk\<close> reads; \<open>has_gemini_service\<close> is
  \<^verbatim>\<open>hasattr(self, 'gemini_service')\<close>. The Python packages the backends import are
  installed.
\<close>

record tts_config =
  translator_type :: string
  google_api_key :: "string option"
  has_gemini_service :: bool

text \<open>A backend that is one request: its text on success, its exception otherwise.\<close>

definition backend_call :: "env \<Rightarrow> service \<Rightarrow> string \<Rightarrow> world \<Rightarrow> (error + string) \<times> world" where
  "backend_call E s text w =
     (case external_call E s text w of
        (Reply t, w') \<Rightarrow> (Inr t, w')
      | (Fails msg, w') \<Rightarrow> (Inl (ApiError msg), w'))"

definition gemini_translate :: "env \<Rightarrow> string \<Rightarrow> world \<Rightarrow> (error + string) \<times> world" where
  "gemini_translate E text w =
     (case call_api_with_retry E (translate_prompt text) w of
        (Inr response, w') \<Rightarrow> (Inr (strip response), w')
      | (Inl e, w') \<Rightarrow> (Inl e, w'))"

text \<open>\<^verbatim>\<open>_fallback_translate\<close>: both handlers of the exception return the source text.\<close>

definition fallback_translate :: "env \<Rightarrow> string \<Rightarrow> world \<Rightarrow> string \<times> world" where
  "fallback_translate E text w =
     (case external_call E MyMemory text w of
        (Reply t, w') \<Rightarrow> (t, w')
      | (Fails msg, w') \<Rightarrow> (text, w'))"

text \<open>The \<^verbatim>\<open>try\<close> block of \<^verbatim>\<open>_translate_chunk\<close>.\<close>

definition dispatch_translate ::
  "env \<Rightarrow> tts_config \<Rightarrow> string \<Rightarrow> world \<Rightarrow> (error + string) \<times> world" where
  "dispatch_translate E C text w =
     (if translator_type C = ''google'' \<and> google_api_key C \<noteq> None \<and> google_api_key C \<noteq> Some []
      then backend_call E GoogleTranslate text w
      else if translator_type C = ''indicnlp'' then backend_call E IndicNLP text w
      else if translator_type C = ''argos'' then backend_call E Argos text w
      else if translator_type C = ''libretranslate'' then backend_call E LibreTranslate text w
      else if translator_type C = ''gemini'' \<and> has_gemini_service C then gemini_translate E text w
      else (case fallback_translate E text w of (t, w') \<Rightarrow> (Inr t, w')))"

definition translate_chunk :: "env \<Rightarrow> tts_config \<Rightarrow> string \<Rightarrow> world \<Rightarrow> string \<times> world" where
  "translate_chunk E C text w =
     (case dispatch_translate E C text w of
        (Inr t, w') \<Rightarrow> (t, w')
      | (Inl e, w') \<Rightarrow> fallback_translate E text w')"

text \<open>\<^verbatim>\<open>[text[i:i+n] for i in range(0, len(text), n)]\<close>, for a positive \<open>n\<close>.\<close>

function chunks_of :: "nat \<Rightarrow> string \<Rightarrow> string list" where
  "chunks_of n text =
     (if n = 0 \<or> text = [] then [] else take n text # chunks_of n (drop n text))"
  by pat_completeness auto
termination
  by (relation "measure (\<lambda>(n, text). length text)") auto

definition max_chunk_size :: nat where
  "max_chunk_size = 4000"

text \<open>The \<^verbatim>\<open>for chunk in chunks\<close> loop; it returns the list \<^verbatim>\<open>translations\<close>.\<close>

fun translate_chunks ::
  "env \<Rightarrow> tts_config \<Rightarrow> string list \<Rightarrow> world \<Rightarrow> string list \<times> world" where
  "translate_chunks E C [] w = ([], w)"
| "translate_chunks E C (chunk # chunks) w =
     (case translate_chunk E C chunk (sleep 1 w) of
        (chunk_translation, w') \<Rightarrow>
          (case translate_chunks E C chunks w' of
             (translations, w'') \<Rightarrow> (chunk_translation # translations, w'')))"

definition translate_to_hindi_multi ::
  "env \<Rightarrow> tts_config \<Rightarrow> string \<Rightarrow> world \<Rightarrow> string \<times> world" where
  "translate_to_hindi_multi E C text w =
     (let cache_key = translation_cache_key E text in
      case translation_hit (check_translation_cache cache_key w) of
        Some cached_translation \<Rightarrow> (cached_translation, w)
      | None \<Rightarrow>
          (case (if length text > max_chunk_size
                 then (case translate_chunks E C (chunks_of max_chunk_size text) w of
                         (translations, w') \<Rightarrow> (concat translations, w'))
                 else translate_chunk E C text w) of
             (full_translation, w') \<Rightarrow>
               (full_translation, save_translation_to_cache cache_key full_translation w')))"

subsection \<open>Predicates of the statements and example inputs\<close>

declare call_api_loop.simps [simp del]
declare split_from.simps [simp del]
declare chunks_of.simps [simp del]
declare str_nat.simps [simp del]

text \<open>The test \<^verbatim>\<open>"429" in str(e)\<close> of the retry wrapper, on the outcome of a call.\<close>

definition is_rate_limited :: "outcome \<Rightarrow> bool" where
  "is_rate_limited out = (case out of Reply text \<Rightarrow> False | Fails msg \<Rightarrow> contains ''429'' msg)"

text \<open>What the wrapper hands to its caller when it stops at an outcome.\<close>

definition surfaced :: "outcome \<Rightarrow> error + string" where
  "surfaced out = (case out of Reply text \<Rightarrow> Inr text | Fails msg \<Rightarrow> Inl (ApiError msg))"

text \<open>A record whose \<^verbatim>\<open>Sentiment\<close> is the label the table gives its \<^verbatim>\<open>Sentiment_Score\<close>.\<close>

definition consistent_label :: "json \<Rightarrow> bool" where
  "consistent_label r =
     (case r of
        JObj d \<Rightarrow>
          (case map_of d ''Sentiment_Score'' of
             None \<Rightarrow> False
           | Some v \<Rightarrow>
               (case num_of v of
                  None \<Rightarrow> False
                | Some s \<Rightarrow> map_of d ''Sentiment'' = Some (JStr (label_for_score s))))
      | _ \<Rightarrow> False)"

text \<open>A fragment of \<^verbatim>\<open>json.loads\<close>: three texts it parses and, for the examples, nothing else.\<close>

definition example_loads :: "string \<Rightarrow> json option" where
  \<open>example_loads s =
     (if s = ''{}'' then Some (JObj [])
      else if s = ''[]'' then Some (JArr [])
      else if s = ''{"Sentiment": "Positive", "Sentiment_Score": 1}''
      then Some (JObj [(''Sentiment'', JStr ''Positive''), (''Sentiment_Score'', JNum 1)])
      else None)\<close>

definition fenced_reply :: string where
  \<open>fenced_reply = ''```json\<newline>{"Sentiment": "Positive", "Sentiment_Score": 1}\<newline>```''\<close>

text \<open>An empty world; an environment whose model is rate limited twice and then answers
  with a fenced reply that proposes the label Positive for the score 1; and one whose
  model answers every prompt at once with an empty object.\<close>

definition w0 :: world where
  "w0 = \<lparr>calls = [], slept = [], cache = Map.empty, tcache = Map.empty\<rparr>"

definition E1 :: env where
  "E1 = \<lparr>md5 = (\<lambda>s. s),
     respond = (\<lambda>s n p. if n < 2 then Fails ''429 quota exceeded'' else Reply fenced_reply),
     json_loads = example_loads,
     set_order = (\<lambda>xs x. 0), str_num = (\<lambda>r. []), fmt_2f = (\<lambda>r. [])\<rparr>"

definition E2 :: env where
  "E2 = \<lparr>md5 = (\<lambda>s. s), respond = (\<lambda>s n p. Reply ''{}''), json_loads = example_loads,
     set_order = (\<lambda>xs x. 0), str_num = (\<lambda>r. []), fmt_2f = (\<lambda>r. [])\<rparr>"

definition r1 :: json where
  "r1 = JObj [(''Sentiment'', JStr ''Very Negative''), (''Sentiment_Score'', JNum 1),
              (''Title'', JStr ''T''), (''Summary'', JStr []), (''Topics'', JArr []),
              (''Sentiment_Indicators'', JArr [])]"

definition r2 :: json where
  "r2 = JObj [(''Title'', JStr ''T''), (''Summary'', JStr []), (''Sentiment'', JStr ''Neutral''),
              (''Sentiment_Score'', JNum 3), (''Topics'', JArr []),
              (''Sentiment_Indicators'', JArr [])]"

text \<open>Two contents that agree on their first 1000 characters and differ at the next.\<close>

definition content_x :: string where
  "content_x = replicate 1000 CHR ''a'' @ ''x''"

definition content_y :: string where
  "content_y = replicate 1000 CHR ''a'' @ ''y''"

text \<open>What the statements about the aggregation say of a list of articles: the label an
  article is counted under, the number of articles per label, the distribution and the
  mean these give, and the topics in the order the articles list them.\<close>

definition five_labels :: "string list" where
  "five_labels = [''Very Positive'', ''Positive'', ''Neutral'', ''Negative'', ''Very Negative'']"

definition label_of :: "article \<Rightarrow> string" where
  "label_of a = get_or ''Neutral'' (Sentiment a)"

definition label_count :: "article list \<Rightarrow> string \<Rightarrow> nat" where
  "label_count articles l = length (filter (\<lambda>a. label_of a = l) articles)"

definition local_distribution :: "article list \<Rightarrow> json" where
  "local_distribution articles =
     JObj (map (\<lambda>l. (l, JNum (of_nat (label_count articles l)))) five_labels)"

definition mean_score :: "article list \<Rightarrow> rat" where
  "mean_score articles =
     (if articles = [] then 3
      else sum_list (map (\<lambda>a. get_or 3 (Sentiment_Score a)) articles) / of_nat (length articles))"

definition observed_topics :: "article list \<Rightarrow> string list" where
  "observed_topics articles = concat (map (\<lambda>a. get_or [] (Topics a)) articles)"

text \<open>The distinct elements of a list in the order of their first occurrence.\<close>

definition first_seen :: "string list \<Rightarrow> string list" where
  "first_seen xs = rev (remdups (rev xs))"

text \<open>The prompt \<^verbatim>\<open>generate_comparative_analysis\<close> sends for a list of articles.\<close>

definition aggregation_prompt :: "env \<Rightarrow> string \<Rightarrow> article list \<Rightarrow> string" where
  "aggregation_prompt E company_name articles =
     comparative_prompt E company_name (articles_digest E articles)
       (sentiment_dist (tally_articles articles))
       (average_score (total_score (tally_articles articles)) articles)"

text \<open>The value under a key of the record an operation returned, if it returned one.\<close>

definition result_field :: "string \<Rightarrow> (error + json) \<times> world \<Rightarrow> json option" where
  "result_field k x = (case fst x of Inr (JObj d) \<Rightarrow> map_of d k | _ \<Rightarrow> None)"

text \<open>Four analysed articles, all Positive, and one that lists two topics; an environment
  as \<open>E2\<close> whose sets list \<^verbatim>\<open>b\<close> before everything else.\<close>

definition titled :: "string \<Rightarrow> article" where
  "titled t = \<lparr>Title = Some t, Summary = Some ''s'', Sentiment = Some ''Positive'',
     Sentiment_Score = Some 4, Topics = Some [''a'', ''b''], Sentiment_Indicators = Some []\<rparr>"

definition E3 :: env where
  "E3 = E2\<lparr>set_order := (\<lambda>xs x. if x = ''b'' then 0 else 1)\<rparr>"

text \<open>An environment as \<open>E2\<close> whose model answers with a JSON text cut off in the middle.\<close>

definition E4 :: env where
  \<open>E4 = E2\<lparr>respond := (\<lambda>s n p. Reply ''{"Sentiment_Trend": '')\<rparr>\<close>

text \<open>The request \<^verbatim>\<open>_translate_chunk\<close> makes first for a chunk under a configuration, and
  what it returns from the reply to it; the text of a reply.\<close>

definition primary_request :: "tts_config \<Rightarrow> string \<Rightarrow> service \<times> string" where
  "primary_request C chunk =
     (if translator_type C = ''google'' \<and> google_api_key C \<noteq> None \<and> google_api_key C \<noteq> Some []
      then (GoogleTranslate, chunk)
      else if translator_type C = ''indicnlp'' then (IndicNLP, chunk)
      else if translator_type C = ''argos'' then (Argos, chunk)
      else if translator_type C = ''libretranslate'' then (LibreTranslate, chunk)
      else if translator_type C = ''gemini'' \<and> has_gemini_service C
      then (Gemini, translate_prompt chunk)
      else (MyMemory, chunk))"



fun is_reply :: "outcome \<Rightarrow> bool" where
  "is_reply (Reply t) = True"
| "is_reply (Fails msg) = False"


text \<open>A service object that uses LibreTranslate; an environment whose first call is
  answered with one word and every later call with another, one in which every external
  call fails, and one in which every call but the first fails; a text of exactly two
  chunks.\<close>

definition libre :: tts_config where
  "libre = \<lparr>translator_type = ''libretranslate'', google_api_key = None,
             has_gemini_service = False\<rparr>"


definition E6 :: env where
  "E6 = E2\<lparr>respond := (\<lambda>s n p. Fails ''503 unavailable'')\<rparr>"

definition E7 :: env where
  "E7 = E2\<lparr>respond := (\<lambda>s n p. if n = 0 then Reply ''eins'' else Fails ''503 unavailable'')\<rparr>"

definition two_chunks :: string where
  "two_chunks = replicate 4000 CHR ''a'' @ replicate 4000 CHR ''b''"

text \<open>An environment as \<open>E2\<close> whose model answers with a JSON list, and one in which
  only the fallback translator answers.\<close>

definition E8 :: env where
  "E8 = E2\<lparr>respond := (\<lambda>s n p. Reply ''[]'')\<rparr>"

definition E9 :: env where
  "E9 = E2\<lparr>respond := (\<lambda>s n p. if s = MyMemory then Reply ''ersatz''
                                 else Fails ''503 unavailable'')\<rparr>"

section \<open>Theorems\<close>

subsection \<open>The retry wrapper\<close>

lemma call_api_loop_run:
  assumes "r + k \<le> 3"
    and "\<forall>i<k. is_rate_limited (respond E Gemini (length (calls w) + i) prompt)"
    and "r + k = 3 \<or> \<not> is_rate_limited (respond E Gemini (length (calls w) + k) prompt)"
  shows "call_api_loop E prompt r w =
     (surfaced (respond E Gemini (length (calls w) + k) prompt),
      w\<lparr>calls := calls w @ replicate (Suc k) (Gemini, prompt),
        slept := slept w @ map (\<lambda>i. rate_limit_backoff * 2 ^ i) [r..<r + k]\<rparr>)"
  using assms
proof (induction k arbitrary: r w)
  case 0
  then show ?case
    by (subst call_api_loop.simps)
       (auto simp: rate_limit_retries_def generate_content_def external_call_def surfaced_def
          is_rate_limited_def split: outcome.splits)
next
  case (Suc k)
  from Suc.prems(2) have rl0: "is_rate_limited (respond E Gemini (length (calls w)) prompt)"
    by (metis add.right_neutral zero_less_Suc)
  then obtain msg where msg: "respond E Gemini (length (calls w)) prompt = Fails msg"
    and c429: "contains ''429'' msg"
    by (auto simp: is_rate_limited_def split: outcome.splits)
  let ?w = "sleep (rate_limit_backoff * 2 ^ r) (w\<lparr>calls := calls w @ [(Gemini, prompt)]\<rparr>)"
  have len: "length (calls ?w) = Suc (length (calls w))"
    by (simp add: sleep_def)
  have step: "call_api_loop E prompt r w = call_api_loop E prompt (Suc r) ?w"
    using Suc.prems(1) msg c429
    by (subst call_api_loop.simps)
       (simp add: rate_limit_retries_def generate_content_def external_call_def)
  have "call_api_loop E prompt (Suc r) ?w =
     (surfaced (respond E Gemini (length (calls ?w) + k) prompt),
      ?w\<lparr>calls := calls ?w @ replicate (Suc k) (Gemini, prompt),
        slept := slept ?w @ map (\<lambda>i. rate_limit_backoff * 2 ^ i) [Suc r..<Suc r + k]\<rparr>)"
  proof (rule Suc.IH)
    show "Suc r + k \<le> 3" using Suc.prems(1) by simp
    show "\<forall>i<k. is_rate_limited (respond E Gemini (length (calls ?w) + i) prompt)"
      using Suc.prems(2) len by (metis Suc_less_eq add_Suc_shift)
    show "Suc r + k = 3 \<or> \<not> is_rate_limited (respond E Gemini (length (calls ?w) + k) prompt)"
      using Suc.prems(3) len by (metis add_Suc_shift add_Suc_right add_Suc)
  qed
  then show ?case
    unfolding step
    by (simp add: len sleep_def upt_rec [of r] replicate_app_Cons_same)
qed

text \<open>
  Claim C6. Let the first \<open>k\<close> calls of the wrapper be rate limited (their exception text
  contains 429), with \<open>k\<close> at most the budget of 3 retries, and let call \<open>k\<close> be the first that
  is not, or let \<open>k\<close> be 3. Then the wrapper makes exactly \<open>k + 1\<close> calls with the prompt,
  sleeps 2, 4, 8 seconds (the first \<open>k\<close> of them) before the retries, and stops at the
  outcome of call \<open>k\<close>: a reply is returned, and a failure, rate limited or not, is raised
  as the error that carries this last exception.
\<close>

theorem call_api_with_retry_backoff:
  assumes "k \<le> rate_limit_retries"
    and "\<forall>i<k. is_rate_limited (respond E Gemini (length (calls w) + i) prompt)"
    and "k = rate_limit_retries \<or> \<not> is_rate_limited (respond E Gemini (length (calls w) + k) prompt)"
  shows "call_api_with_retry E prompt w =
     (case respond E Gemini (length (calls w) + k) prompt of
        Reply text \<Rightarrow> Inr text
      | Fails msg \<Rightarrow> Inl (ApiError msg),
      w\<lparr>calls := calls w @ replicate (k + 1) (Gemini, prompt),
        slept := slept w @ take k [2, 4, 8]\<rparr>)"
proof -
  have "map (\<lambda>i. rate_limit_backoff * 2 ^ i) [0..<k] = take k [2, 4, 8]"
    using assms(1)
    by (auto simp: rate_limit_retries_def rate_limit_backoff_def le_Suc_eq numeral_3_eq_3 upt_rec)
  then show ?thesis
    using call_api_loop_run [of 0 k E w prompt] assms
    by (simp add: call_api_with_retry_def rate_limit_retries_def surfaced_def)
qed

theorem call_api_with_retry_backoff_witness:
  "call_api_with_retry E1 ''p'' w0 =
     (Inr fenced_reply, w0\<lparr>calls := replicate 3 (Gemini, ''p''), slept := [2, 4]\<rparr>)"
proof -
  have h1: "(2::nat) \<le> rate_limit_retries"
    by (simp add: rate_limit_retries_def)
  have h2: "\<forall>i<2. is_rate_limited (respond E1 Gemini (length (calls w0) + i) ''p'')"
    by (simp add: E1_def w0_def is_rate_limited_def starts_with_def)
  have h3: "(2::nat) = rate_limit_retries \<or> \<not> is_rate_limited (respond E1 Gemini (length (calls w0) + 2) ''p'')"
    by (simp add: E1_def is_rate_limited_def w0_def)
  show ?thesis
    using call_api_with_retry_backoff [OF h1 h2 h3]
    by (simp add: E1_def w0_def)
qed

subsection \<open>Article analysis\<close>

lemma map_of_dict_set:
  "map_of (dict_set k v d) k' = (if k' = k then Some v else map_of d k')"
  by (induction d) auto

lemma dict_set_not_Nil: "dict_set k v d \<noteq> []"
  by (cases d) (auto split: if_splits)

lemma postprocess_article_consistent:
  assumes "postprocess_article title parsed = Inr r"
  shows "consistent_label r \<and> truthy r"
  using assms
  by (auto simp: postprocess_article_def consistent_label_def Let_def map_of_dict_set
      dict_set_not_Nil split: json.splits option.splits)

lemma cache_hit_truthy: "cache_hit c = Some v \<Longrightarrow> c = Some v \<and> truthy v"
  by (auto simp: cache_hit_def split: option.splits if_splits)

lemma cache_hit_Some: "truthy v \<Longrightarrow> cache_hit (Some v) = Some v"
  by (simp add: cache_hit_def)

text \<open>The three ways \<^verbatim>\<open>analyze_article\<close> returns a record.\<close>

lemma analyze_article_cases:
  assumes "analyze_article E title content w = (Inr r, w')"
  obtains
    (hit) "cache_hit (check_cache (article_cache_key E title content) w) = Some r" "w' = w"
  | (miss) response_text w1 parsed where
      "cache_hit (check_cache (article_cache_key E title content) w) = None"
      "call_api_with_retry E (analysis_prompt title content) w = (Inr response_text, w1)"
      "json_loads E (strip_fences response_text) = Some parsed"
      "postprocess_article title parsed = Inr r"
      "w' = save_to_cache (article_cache_key E title content) r w1"
  using assms
  by (auto simp: analyze_article_def Let_def split: option.splits sum.splits prod.splits)

lemma rate_limited_prefix:
  fixes RL :: "nat \<Rightarrow> bool"
  shows "\<exists>k\<le>3. (\<forall>i<k. RL i) \<and> (k = 3 \<or> \<not> RL k)"
proof -
  consider "\<not> RL 0" | "RL 0" "\<not> RL 1" | "RL 0" "RL 1" "\<not> RL 2" | "RL 0" "RL 1" "RL 2"
    by blast
  then show ?thesis
  proof cases
    case 1
    then show ?thesis by (intro exI [of _ 0]) simp
  next
    case 2
    then show ?thesis by (intro exI [of _ 1]) simp
  next
    case 3
    then show ?thesis by (intro exI [of _ 2]) (auto simp: less_2_cases_iff)
  next
    case 4
    have "\<forall>i<3. RL i"
    proof (intro allI impI)
      fix i :: nat
      assume "i < 3"
      then have "i = 0 \<or> i = 1 \<or> i = 2" by arith
      with 4 show "RL i" by auto
    qed
    then show ?thesis by (intro exI [of _ 3]) simp
  qed
qed

text \<open>Every run of the wrapper is one of the runs of \<open>call_api_loop_run\<close>.\<close>

lemma call_api_with_retry_run:
  "\<exists>k\<le>3. call_api_with_retry E prompt w =
     (surfaced (respond E Gemini (length (calls w) + k) prompt),
      w\<lparr>calls := calls w @ replicate (Suc k) (Gemini, prompt),
        slept := slept w @ map (\<lambda>i. rate_limit_backoff * 2 ^ i) [0..<k]\<rparr>)"
proof -
  obtain k where k: "k \<le> 3"
    "\<forall>i<k. is_rate_limited (respond E Gemini (length (calls w) + i) prompt)"
    "k = 3 \<or> \<not> is_rate_limited (respond E Gemini (length (calls w) + k) prompt)"
    using rate_limited_prefix [of "\<lambda>i. is_rate_limited (respond E Gemini (length (calls w) + i) prompt)"]
    by blast
  then show ?thesis
    using call_api_loop_run [of 0 k E w prompt]
    by (auto simp: call_api_with_retry_def)
qed

lemma call_api_with_retry_first:
  assumes "\<not> is_rate_limited (respond E Gemini (length (calls w)) prompt)"
  shows "call_api_with_retry E prompt w =
     (surfaced (respond E Gemini (length (calls w)) prompt),
      w\<lparr>calls := calls w @ [(Gemini, prompt)]\<rparr>)"
  using call_api_loop_run [of 0 0 E w prompt] assms
  by (simp add: call_api_with_retry_def)

text \<open>A run that misses the cache, is answered after \<open>k\<close> rate-limited attempts, and parses.\<close>

lemma analyze_article_miss:
  assumes "cache_hit (check_cache (article_cache_key E title content) w) = None"
    and "k \<le> 3"
    and "\<forall>i<k. is_rate_limited (respond E Gemini (length (calls w) + i) (analysis_prompt title content))"
    and "respond E Gemini (length (calls w) + k) (analysis_prompt title content) = Reply text"
    and "json_loads E (strip_fences text) = Some parsed"
    and "postprocess_article title parsed = Inr r"
  shows "fst (analyze_article E title content w) = Inr r"
proof -
  have "\<not> is_rate_limited (respond E Gemini (length (calls w) + k) (analysis_prompt title content))"
    using assms(4) by (simp add: is_rate_limited_def)
  then have "fst (call_api_with_retry E (analysis_prompt title content) w) = Inr text"
    using call_api_loop_run [of 0 k E w "analysis_prompt title content"] assms(2,3,4)
    by (simp add: call_api_with_retry_def surfaced_def)
  then show ?thesis
    using assms(1,5,6)
    by (auto simp: analyze_article_def Let_def split: prod.splits sum.splits)
qed

lemma strip_fences_examples:
  "strip_fences ''{}'' = ''{}''"
  "strip_fences ''[]'' = ''[]''"
  \<open>strip_fences fenced_reply = ''{"Sentiment": "Positive", "Sentiment_Score": 1}''\<close>
  by (simp_all add: strip_fences_def fenced_reply_def starts_with_def split_str_def
      split_from.simps strip_def isspace_def)

lemma postprocess_article_examples:
  "postprocess_article ''T'' (JObj []) = Inr r2"
  "postprocess_article ''T''
     (JObj [(''Sentiment'', JStr ''Positive''), (''Sentiment_Score'', JNum 1)]) = Inr r1"
  by (simp_all add: postprocess_article_def required_fields_def fill_field_def default_for_def
      preserve_title_def label_for_score_def r1_def r2_def)

lemma E1_analysis: "fst (analyze_article E1 ''T'' ''body'' w0) = Inr r1"
proof (rule analyze_article_miss [where k = 2])
  show "cache_hit (check_cache (article_cache_key E1 ''T'' ''body'') w0) = None"
    by (simp add: check_cache_def w0_def cache_hit_def)
  show "\<forall>i<2. is_rate_limited (respond E1 Gemini (length (calls w0) + i) (analysis_prompt ''T'' ''body''))"
    by (simp add: E1_def w0_def is_rate_limited_def starts_with_def)
  show "respond E1 Gemini (length (calls w0) + 2) (analysis_prompt ''T'' ''body'') = Reply fenced_reply"
    by (simp add: E1_def w0_def)
  show "json_loads E1 (strip_fences fenced_reply) =
      Some (JObj [(''Sentiment'', JStr ''Positive''), (''Sentiment_Score'', JNum 1)])"
    by (simp add: E1_def strip_fences_examples example_loads_def)
qed (simp_all add: postprocess_article_examples)

lemma E2_analysis: "fst (analyze_article E2 ''T'' content w0) = Inr r2"
proof (rule analyze_article_miss [where k = 0])
  show "cache_hit (check_cache (article_cache_key E2 ''T'' content) w0) = None"
    by (simp add: check_cache_def w0_def cache_hit_def)
  show "respond E2 Gemini (length (calls w0) + 0) (analysis_prompt ''T'' content) = Reply ''{}''"
    by (simp add: E2_def)
  show "json_loads E2 (strip_fences ''{}'') = Some (JObj [])"
    by (simp add: E2_def strip_fences_examples example_loads_def)
qed (simp_all add: postprocess_article_examples)

lemma label_table:
  "label_for_score (3 / 2) = ''Very Negative''"
  "label_for_score (151 / 100) = ''Negative''"
  "label_for_score (5 / 2) = ''Negative''"
  "label_for_score (251 / 100) = ''Neutral''"
  "label_for_score (7 / 2) = ''Neutral''"
  "label_for_score (351 / 100) = ''Positive''"
  "label_for_score (9 / 2) = ''Positive''"
  "label_for_score (451 / 100) = ''Very Positive''"
  by (simp_all add: label_for_score_def)

lemma label_for_score_iff:
  "label_for_score s = ''Very Negative'' \<longleftrightarrow> s \<le> 3 / 2"
  "label_for_score s = ''Negative'' \<longleftrightarrow> 3 / 2 < s \<and> s \<le> 5 / 2"
  "label_for_score s = ''Neutral'' \<longleftrightarrow> 5 / 2 < s \<and> s \<le> 7 / 2"
  "label_for_score s = ''Positive'' \<longleftrightarrow> 7 / 2 < s \<and> s \<le> 9 / 2"
  "label_for_score s = ''Very Positive'' \<longleftrightarrow> 9 / 2 < s"
  by (auto simp: label_for_score_def)

lemma map_of_fill_field:
  "map_of (fill_field d f) k =
     (case map_of d k of Some v \<Rightarrow> Some v
      | None \<Rightarrow> if k = f then Some (default_for f) else None)"
  by (auto simp: fill_field_def map_of_dict_set split: option.splits)

lemma map_of_fill_fields:
  "map_of (foldl fill_field d fs) k =
     (case map_of d k of Some v \<Rightarrow> Some v
      | None \<Rightarrow> if k \<in> set fs then Some (default_for k) else None)"
proof (induction fs arbitrary: d)
  case Nil
  then show ?case by (simp split: option.splits)
next
  case (Cons f fs)
  show ?case
    by (simp add: Cons.IH map_of_fill_field split: option.splits)
qed

lemma map_of_preserve_title:
  "k \<noteq> ''Title'' \<Longrightarrow> map_of (preserve_title title d) k = map_of d k"
  by (simp add: preserve_title_def map_of_dict_set)

text \<open>The score of the record is the score of the reply, or 3 when the reply has none.\<close>

lemma postprocess_article_score:
  assumes "postprocess_article title (JObj d) = Inr r"
  shows "\<exists>d'. r = JObj d' \<and> map_of d' ''Sentiment_Score'' =
      Some (case map_of d ''Sentiment_Score'' of None \<Rightarrow> JNum 3 | Some v \<Rightarrow> v)"
proof -
  have score: "map_of (preserve_title title (foldl fill_field d required_fields)) ''Sentiment_Score'' =
      Some (case map_of d ''Sentiment_Score'' of None \<Rightarrow> JNum 3 | Some v \<Rightarrow> v)"
  proof -
    have mem: "''Sentiment_Score'' \<in> set required_fields"
      by (simp add: required_fields_def)
    have dflt: "default_for ''Sentiment_Score'' = JNum 3"
      by (simp add: default_for_def)
    show ?thesis
      by (simp add: map_of_preserve_title map_of_fill_fields mem dflt split: option.splits)
  qed
  then show ?thesis
    using assms
    by (auto simp: postprocess_article_def Let_def map_of_dict_set split: option.splits)
qed

text \<open>
  Claim C1, as amended. When \<^verbatim>\<open>analyze_article\<close> misses the cache and returns a record,
  the \<^verbatim>\<open>Sentiment\<close> of the record is the label that the threshold table gives its
  \<^verbatim>\<open>Sentiment_Score\<close>, whatever label the reply of the model proposed; the score is the
  one of the reply, or 3 when the reply has none; and this record is what the cache then
  holds under the key. On a cache hit the stored value is returned as it is, whatever it
  is. The table is: at most 1.5 Very Negative, at most 2.5 Negative, at most 3.5 Neutral,
  at most 4.5 Positive, above that Very Positive; each boundary takes the lower label and
  1.51, 2.51, 3.51, 4.51 take the next one.
\<close>

theorem analyze_article_label:
  "(cache_hit (check_cache (article_cache_key E title content) w) = None
      \<and> fst (analyze_article E title content w) = Inr r \<longrightarrow>
        consistent_label r
        \<and> check_cache (article_cache_key E title content)
            (snd (analyze_article E title content w)) = Some r
        \<and> (\<forall>response_text w1 d.
              call_api_with_retry E (analysis_prompt title content) w = (Inr response_text, w1)
              \<and> json_loads E (strip_fences response_text) = Some (JObj d) \<longrightarrow>
              result_field ''Sentiment_Score'' (analyze_article E title content w) =
                Some (case map_of d ''Sentiment_Score'' of None \<Rightarrow> JNum 3 | Some v \<Rightarrow> v)))
   \<and> (\<forall>c. cache_hit (check_cache (article_cache_key E title content) w) = Some c \<longrightarrow>
          analyze_article E title content w = (Inr c, w))
   \<and> (\<forall>s. (label_for_score s = ''Very Negative'' \<longleftrightarrow> s \<le> 3 / 2)
          \<and> (label_for_score s = ''Negative'' \<longleftrightarrow> 3 / 2 < s \<and> s \<le> 5 / 2)
          \<and> (label_for_score s = ''Neutral'' \<longleftrightarrow> 5 / 2 < s \<and> s \<le> 7 / 2)
          \<and> (label_for_score s = ''Positive'' \<longleftrightarrow> 7 / 2 < s \<and> s \<le> 9 / 2)
          \<and> (label_for_score s = ''Very Positive'' \<longleftrightarrow> 9 / 2 < s))
   \<and> label_for_score (3 / 2) = ''Very Negative'' \<and> label_for_score (151 / 100) = ''Negative''
   \<and> label_for_score (5 / 2) = ''Negative'' \<and> label_for_score (251 / 100) = ''Neutral''
   \<and> label_for_score (7 / 2) = ''Neutral'' \<and> label_for_score (351 / 100) = ''Positive''
   \<and> label_for_score (9 / 2) = ''Positive'' \<and> label_for_score (451 / 100) = ''Very Positive''"
proof -
  have computed: "consistent_label r
        \<and> check_cache (article_cache_key E title content)
            (snd (analyze_article E title content w)) = Some r
        \<and> (\<forall>response_text w1 d.
              call_api_with_retry E (analysis_prompt title content) w = (Inr response_text, w1)
              \<and> json_loads E (strip_fences response_text) = Some (JObj d) \<longrightarrow>
              result_field ''Sentiment_Score'' (analyze_article E title content w) =
                Some (case map_of d ''Sentiment_Score'' of None \<Rightarrow> JNum 3 | Some v \<Rightarrow> v))"
    if miss: "cache_hit (check_cache (article_cache_key E title content) w) = None"
      and ret: "fst (analyze_article E title content w) = Inr r"
  proof -
    obtain w' where run: "analyze_article E title content w = (Inr r, w')"
      using ret by (cases "analyze_article E title content w") auto
    from run show ?thesis
    proof (cases rule: analyze_article_cases)
      case hit
      with miss show ?thesis by simp
    next
      case (miss response_text w1 parsed)
      have a: "consistent_label r"
        using miss(4) postprocess_article_consistent by blast
      have b: "check_cache (article_cache_key E title content)
            (snd (analyze_article E title content w)) = Some r"
        by (simp add: run miss(5) check_cache_def save_to_cache_def)
      have c: "result_field ''Sentiment_Score'' (analyze_article E title content w) =
            Some (case map_of d ''Sentiment_Score'' of None \<Rightarrow> JNum 3 | Some v \<Rightarrow> v)"
        if "call_api_with_retry E (analysis_prompt title content) w = (Inr text', w1')"
          and "json_loads E (strip_fences text') = Some (JObj d)" for text' w1' d
      proof -
        from that miss(2,3) have "parsed = JObj d" by simp
        with miss(4) obtain d' where "r = JObj d'" "map_of d' ''Sentiment_Score'' =
            Some (case map_of d ''Sentiment_Score'' of None \<Rightarrow> JNum 3 | Some v \<Rightarrow> v)"
          using postprocess_article_score by blast
        then show ?thesis by (simp add: result_field_def run)
      qed
      from a b c show ?thesis by blast
    qed
  qed
  have served: "analyze_article E title content w = (Inr c, w)"
    if "cache_hit (check_cache (article_cache_key E title content) w) = Some c" for c
    using that by (simp add: analyze_article_def)
  show ?thesis
    using computed served label_for_score_iff label_table by blast
qed

theorem analyze_article_label_witness:
  "fst (analyze_article E1 ''T'' ''body'' w0) = Inr r1
   \<and> consistent_label r1
   \<and> check_cache (article_cache_key E1 ''T'' ''body'')
        (snd (analyze_article E1 ''T'' ''body'' w0)) = Some r1"
proof -
  have h1: "cache_hit (check_cache (article_cache_key E1 ''T'' ''body'') w0) = None"
    by (simp add: check_cache_def w0_def cache_hit_def)
  have "cache_hit (check_cache (article_cache_key E1 ''T'' ''body'') w0) = None
      \<and> fst (analyze_article E1 ''T'' ''body'' w0) = Inr r1 \<longrightarrow>
        consistent_label r1
        \<and> check_cache (article_cache_key E1 ''T'' ''body'')
            (snd (analyze_article E1 ''T'' ''body'' w0)) = Some r1"
    using analyze_article_label [of E1 "''T''" "''body''" w0 r1] by blast
  then show ?thesis
    using h1 E1_analysis by blast
qed

lemma analyze_article_repeat:
  assumes "article_cache_key E title c2 = article_cache_key E title c1"
    and "analyze_article E title c1 w = (Inr r, w')"
  shows "analyze_article E title c2 w' = (Inr r, w')"
proof -
  have "cache_hit (check_cache (article_cache_key E title c1) w') = Some r"
    using assms(2)
  proof (cases rule: analyze_article_cases)
    case hit
    then show ?thesis by simp
  next
    case (miss response_text w1 parsed)
    then show ?thesis
      using postprocess_article_consistent [of title parsed r]
      by (simp add: save_to_cache_def check_cache_def cache_hit_Some)
  qed
  then show ?thesis
    using assms(1) by (simp add: analyze_article_def)
qed

text \<open>
  Claim C9. After a call of \<^verbatim>\<open>analyze_article\<close> that missed the cache and returned a
  record, a second call with the same title and content returns the same record and
  leaves the world as it is: it makes no external call. All model calls of the two
  calls together are the attempts of the one wrapper invocation of the first call, and
  that is exactly one call when the first attempt is not rate limited.
\<close>

theorem analyze_article_idempotent:
  assumes "cache_hit (check_cache (article_cache_key E title content) w) = None"
    and "fst (analyze_article E title content w) = Inr r"
  shows "let w' = snd (analyze_article E title content w) in
     analyze_article E title content w' = (Inr r, w')
     \<and> (\<exists>k\<le>rate_limit_retries.
           calls w' = calls w @ replicate (k + 1) (Gemini, analysis_prompt title content))
     \<and> (\<not> is_rate_limited (respond E Gemini (length (calls w)) (analysis_prompt title content))
          \<longrightarrow> calls w' = calls w @ [(Gemini, analysis_prompt title content)])"
proof -
  obtain w' where run: "analyze_article E title content w = (Inr r, w')"
    using assms(2) by (cases "analyze_article E title content w") auto
  have again: "analyze_article E title content w' = (Inr r, w')"
    using analyze_article_repeat [OF refl run] .
  from run obtain response_text w1 where
    api: "call_api_with_retry E (analysis_prompt title content) w = (Inr response_text, w1)"
    and w': "calls w' = calls w1"
  proof (cases rule: analyze_article_cases)
    case hit
    with assms(1) show ?thesis by simp
  next
    case (miss response_text w1 parsed)
    then show ?thesis using that by (simp add: save_to_cache_def)
  qed
  have many: "\<exists>k\<le>rate_limit_retries.
      calls w' = calls w @ replicate (k + 1) (Gemini, analysis_prompt title content)"
    using call_api_with_retry_run [of E "analysis_prompt title content" w] api w'
    by (auto simp: rate_limit_retries_def)
  have one: "calls w' = calls w @ [(Gemini, analysis_prompt title content)]"
    if "\<not> is_rate_limited (respond E Gemini (length (calls w)) (analysis_prompt title content))"
    using call_api_with_retry_first [OF that] api w' by auto
  show ?thesis
    using again many one by (simp add: run)
qed

theorem analyze_article_idempotent_witness:
  "analyze_article E2 ''T'' ''body'' (snd (analyze_article E2 ''T'' ''body'' w0)) =
     (Inr r2, snd (analyze_article E2 ''T'' ''body'' w0))
   \<and> calls (snd (analyze_article E2 ''T'' ''body'' w0)) = [(Gemini, analysis_prompt ''T'' ''body'')]"
proof -
  have h1: "cache_hit (check_cache (article_cache_key E2 ''T'' ''body'') w0) = None"
    by (simp add: check_cache_def w0_def cache_hit_def)
  have h3: "\<not> is_rate_limited (respond E2 Gemini (length (calls w0)) (analysis_prompt ''T'' ''body''))"
    by (simp add: E2_def is_rate_limited_def)
  show ?thesis
    using analyze_article_idempotent [OF h1 E2_analysis] h3
    by (simp add: Let_def w0_def)
qed

lemma analysis_prompt_inj:
  "analysis_prompt title c1 = analysis_prompt title c2 \<longleftrightarrow> take 4000 c1 = take 4000 c2"
  by (simp add: analysis_prompt_def)

text \<open>
  Claim C10. The cache key is computed from the title and the first 1000 characters of the
  content, the prompt from the title and the first 4000. So when two contents agree on
  their first 1000 characters and \<^verbatim>\<open>analyze_article\<close> has returned a record for the first,
  the call for the second returns that same record without any external call, although
  the two prompts differ as soon as the contents differ within their first 4000
  characters.
\<close>

theorem analyze_article_prefix_key:
  assumes "take 1000 c1 = take 1000 c2"
    and "fst (analyze_article E title c1 w) = Inr r"
  shows "let w' = snd (analyze_article E title c1 w) in
     article_cache_key E title c2 = article_cache_key E title c1
     \<and> analyze_article E title c2 w' = (Inr r, w')
     \<and> (analysis_prompt title c1 = analysis_prompt title c2 \<longleftrightarrow> take 4000 c1 = take 4000 c2)"
proof -
  obtain w' where run: "analyze_article E title c1 w = (Inr r, w')"
    using assms(2) by (cases "analyze_article E title c1 w") auto
  have key: "article_cache_key E title c2 = article_cache_key E title c1"
    using assms(1) by (simp add: article_cache_key_def)
  show ?thesis
    using key analyze_article_repeat [OF key run] analysis_prompt_inj by (simp add: run)
qed

theorem analyze_article_prefix_key_witness:
  "analyze_article E2 ''T'' content_y (snd (analyze_article E2 ''T'' content_x w0)) =
     (Inr r2, snd (analyze_article E2 ''T'' content_x w0))
   \<and> take 4000 content_x \<noteq> take 4000 content_y
   \<and> analysis_prompt ''T'' content_x \<noteq> analysis_prompt ''T'' content_y"
proof -
  have h1: "take 1000 content_x = take 1000 content_y"
    by (simp add: content_x_def content_y_def)
  have h2: "take 4000 content_x \<noteq> take 4000 content_y"
    by (simp add: content_x_def content_y_def)
  show ?thesis
    using analyze_article_prefix_key [OF h1 E2_analysis] h2
    by (simp add: Let_def)
qed

subsection \<open>Comparative analysis\<close>

lemma tally_dist:
  assumes "sentiment_dist t =
     [(''Very Positive'', n1), (''Positive'', n2), (''Neutral'', n3), (''Negative'', n4),
      (''Very Negative'', n5)]"
  shows "sentiment_dist (foldl tally_article t articles) =
     [(''Very Positive'', n1 + label_count articles ''Very Positive''),
      (''Positive'', n2 + label_count articles ''Positive''),
      (''Neutral'', n3 + label_count articles ''Neutral''),
      (''Negative'', n4 + label_count articles ''Negative''),
      (''Very Negative'', n5 + label_count articles ''Very Negative'')]"
  using assms
proof (induction articles arbitrary: t n1 n2 n3 n4 n5)
  case Nil
  then show ?case by (simp add: label_count_def)
next
  case (Cons a articles)
  let ?l = "get_or ''Neutral'' (Sentiment a)"
  have step: "sentiment_dist (tally_article t a) =
     [(''Very Positive'', n1 + (if ?l = ''Very Positive'' then 1 else 0)),
      (''Positive'', n2 + (if ?l = ''Positive'' then 1 else 0)),
      (''Neutral'', n3 + (if ?l = ''Neutral'' then 1 else 0)),
      (''Negative'', n4 + (if ?l = ''Negative'' then 1 else 0)),
      (''Very Negative'', n5 + (if ?l = ''Very Negative'' then 1 else 0))]"
    using Cons.prems by (simp add: tally_article_def Let_def)
  show ?case
    using Cons.IH [OF step]
    by (simp add: label_count_def label_of_def)
qed

lemma tally_topics:
  "all_topics (foldl tally_article t articles) = all_topics t @ observed_topics articles"
  by (induction articles arbitrary: t) (simp_all add: observed_topics_def tally_article_def Let_def)

lemma tally_score:
  "total_score (foldl tally_article t articles) =
     total_score t + sum_list (map (\<lambda>a. get_or 3 (Sentiment_Score a)) articles)"
  by (induction articles arbitrary: t) (simp_all add: tally_article_def Let_def)

lemma dist_json_tally: "dist_json (sentiment_dist (tally_articles articles)) = local_distribution articles"
  using tally_dist [of initial_tally 0 0 0 0 0 articles]
  by (simp add: tally_articles_def initial_tally_def dist_json_def local_distribution_def
      five_labels_def)

lemma all_topics_tally: "all_topics (tally_articles articles) = observed_topics articles"
  using tally_topics [of initial_tally articles]
  by (simp add: tally_articles_def initial_tally_def)

lemma average_tally:
  "average_score (total_score (tally_articles articles)) articles = mean_score articles"
  using tally_score [of initial_tally articles]
  by (simp add: tally_articles_def initial_tally_def average_score_def mean_score_def)

lemma label_count_total:
  assumes "\<forall>a\<in>set articles. label_of a \<in> set five_labels"
  shows "sum_list (map (label_count articles) five_labels) = length articles"
  using assms
proof (induction articles)
  case Nil
  then show ?case by (simp add: label_count_def five_labels_def)
next
  case (Cons a articles)
  then have "label_of a \<in> set five_labels" and
    IH: "sum_list (map (label_count articles) five_labels) = length articles"
    by simp_all
  then show ?case
    by (auto simp: label_count_def five_labels_def)
qed

lemma generate_comparative_analysis_hit:
  assumes "cache_hit (check_cache (comparative_cache_key E cn as) w) = Some c"
  shows "generate_comparative_analysis E cn as w = (Inr c, w)"
  using assms by (simp add: generate_comparative_analysis_def)

lemma generate_comparative_analysis_miss:
  assumes "cache_hit (check_cache (comparative_cache_key E cn as) w) = None"
  shows "generate_comparative_analysis E cn as w =
     (case call_api_with_retry E (aggregation_prompt E cn as) w of
        (Inl e, w') \<Rightarrow> (Inl e, w')
      | (Inr response_text, w') \<Rightarrow>
          (case json_loads E (strip_fences response_text) of
             None \<Rightarrow>
               (Inr (basic_result E as (tally_articles as) (mean_score as)),
                save_to_cache (comparative_cache_key E cn as)
                  (basic_result E as (tally_articles as) (mean_score as)) w')
           | Some parsed \<Rightarrow>
               (case complete_analysis E as (tally_articles as) (mean_score as) parsed of
                  Inl e \<Rightarrow> (Inl e, w')
                | Inr result \<Rightarrow>
                    (Inr result, save_to_cache (comparative_cache_key E cn as) result w'))))"
  using assms
  by (auto simp: generate_comparative_analysis_def Let_def aggregation_prompt_def average_tally
      split: prod.splits sum.splits option.splits)

text \<open>The fields of a completed reply, in terms of the parsed dict \<open>d\<close>.\<close>

lemma complete_analysis_fields:
  assumes "complete_analysis E as (tally_articles as) avg parsed = Inr r"
  obtains d d' where "parsed = JObj d" and "r = JObj d'" and "d' \<noteq> []"
    and "map_of d' ''Sentiment_Distribution'' = Some (local_distribution as)"
    and "map_of d' ''Average_Sentiment_Score'' = Some (JNum avg)"
    and "map_of d' ''Coverage_Differences'' =
          (if (case map_of d ''Coverage_Differences'' of None \<Rightarrow> True | Some v \<Rightarrow> \<not> truthy v)
           then Some (JArr [fallback_difference as])
           else map_of d ''Coverage_Differences'')"
    and "map_of d' ''Topic_Analysis'' =
          (case map_of d ''Topic_Analysis'' of
             None \<Rightarrow> Some (default_topic_analysis E (observed_topics as))
           | Some v \<Rightarrow> Some v)"
proof -
  from assms obtain d where d: "parsed = JObj d"
    by (cases parsed) (simp_all add: complete_analysis_def)
  define d1 where
    "d1 = dict_set ''Sentiment_Distribution'' (dist_json (sentiment_dist (tally_articles as))) d"
  define d2 where "d2 = dict_set ''Average_Sentiment_Score'' (JNum avg) d1"
  define d3 where
    "d3 = (if (case map_of d2 ''Coverage_Differences'' of None \<Rightarrow> True | Some v \<Rightarrow> \<not> truthy v)
           then dict_set ''Coverage_Differences'' (JArr [fallback_difference as]) d2
           else d2)"
  define d4 where
    "d4 = (if map_of d3 ''Sentiment_Drivers'' = None
           then dict_set ''Sentiment_Drivers'' empty_drivers d3 else d3)"
  define d5 where
    "d5 = (if map_of d4 ''Topic_Analysis'' = None
           then dict_set ''Topic_Analysis''
                  (default_topic_analysis E (all_topics (tally_articles as))) d4
           else d4)"
  have "complete_analysis E as (tally_articles as) avg (JObj d) = Inr (JObj d5)"
    by (simp only: complete_analysis_def json.case Let_def d5_def d4_def d3_def d2_def d1_def)
  with assms d have r: "r = JObj d5" by simp
  have m1: "map_of d1 k = (if k = ''Sentiment_Distribution'' then Some (local_distribution as)
      else map_of d k)" for k
    by (simp add: d1_def map_of_dict_set dist_json_tally)
  have m2: "map_of d2 k = (if k = ''Average_Sentiment_Score'' then Some (JNum avg)
      else map_of d1 k)" for k
    by (simp add: d2_def map_of_dict_set)
  have cd: "map_of d2 ''Coverage_Differences'' = map_of d ''Coverage_Differences''"
    by (simp add: m2 m1)
  have m3: "map_of d3 k =
      (if k = ''Coverage_Differences''
          \<and> (case map_of d ''Coverage_Differences'' of None \<Rightarrow> True | Some v \<Rightarrow> \<not> truthy v)
       then Some (JArr [fallback_difference as]) else map_of d2 k)" for k
    by (simp add: d3_def cd map_of_dict_set)
  have m4: "map_of d4 k = (if k = ''Sentiment_Drivers'' \<and> map_of d3 ''Sentiment_Drivers'' = None
      then Some empty_drivers else map_of d3 k)" for k
    by (simp add: d4_def map_of_dict_set)
  have m5: "map_of d5 k = (if k = ''Topic_Analysis'' \<and> map_of d4 ''Topic_Analysis'' = None
      then Some (default_topic_analysis E (observed_topics as)) else map_of d4 k)" for k
    by (simp add: d5_def map_of_dict_set all_topics_tally)
  have ne: "d5 \<noteq> []"
    by (simp add: d5_def d4_def d3_def d2_def dict_set_not_Nil)
  have f1: "map_of d5 ''Sentiment_Distribution'' = Some (local_distribution as)"
    by (simp add: m5 m4 m3 m2 m1)
  have f2: "map_of d5 ''Average_Sentiment_Score'' = Some (JNum avg)"
    by (simp add: m5 m4 m3 m2 m1)
  have f3: "map_of d5 ''Coverage_Differences'' =
      (if (case map_of d ''Coverage_Differences'' of None \<Rightarrow> True | Some v \<Rightarrow> \<not> truthy v)
       then Some (JArr [fallback_difference as])
       else map_of d ''Coverage_Differences'')"
    by (simp add: m5 m4 m3 m2 m1)
  have f4: "map_of d5 ''Topic_Analysis'' =
      (case map_of d ''Topic_Analysis'' of
         None \<Rightarrow> Some (default_topic_analysis E (observed_topics as))
       | Some v \<Rightarrow> Some v)"
    by (simp add: m5 m4 m3 m2 m1 split: option.splits)
  show ?thesis
    using that [OF d r ne f1 f2 f3 f4] .
qed

lemma complete_analysis_dict:
  "\<exists>r. complete_analysis E as t avg (JObj d) = Inr r"
  by (simp add: complete_analysis_def Let_def)

lemma basic_result_fields:
  "basic_result E as (tally_articles as) avg =
     JObj [(''Sentiment_Distribution'', local_distribution as),
           (''Average_Sentiment_Score'', JNum avg),
           (''Sentiment_Trend'', JStr ''Unable to determine due to processing error''),
           (''Coverage_Differences'',
              JArr [JObj [(''Comparison'', JStr ''Analysis encountered an error''),
                          (''Articles_Involved'', articles_involved as),
                          (''Impact'', JStr ''Complete comparative analysis not available'')]]),
           (''Sentiment_Drivers'',
              JObj [(''Positive_Factors'', JArr []), (''Negative_Factors'', JArr [])]),
           (''Topic_Analysis'',
              JObj [(''Common_Topics'', JArr (map JStr (take 5 (list_of_set E (observed_topics as))))),
                    (''Topic_Sentiment_Map'', JObj [])])]"
  by (simp add: basic_result_def dist_json_tally all_topics_tally empty_drivers_def
      default_topic_analysis_def)

text \<open>The three ways the aggregation returns a record.\<close>

lemma generate_comparative_analysis_cases:
  assumes "generate_comparative_analysis E cn as w = (Inr r, w')"
  obtains
    (hit) "cache_hit (check_cache (comparative_cache_key E cn as) w) = Some r" "w' = w"
  | (degraded) response_text w1 where
      "cache_hit (check_cache (comparative_cache_key E cn as) w) = None"
      "call_api_with_retry E (aggregation_prompt E cn as) w = (Inr response_text, w1)"
      "json_loads E (strip_fences response_text) = None"
      "r = basic_result E as (tally_articles as) (mean_score as)"
      "w' = save_to_cache (comparative_cache_key E cn as) r w1"
  | (completed) response_text w1 parsed where
      "cache_hit (check_cache (comparative_cache_key E cn as) w) = None"
      "call_api_with_retry E (aggregation_prompt E cn as) w = (Inr response_text, w1)"
      "json_loads E (strip_fences response_text) = Some parsed"
      "complete_analysis E as (tally_articles as) (mean_score as) parsed = Inr r"
      "w' = save_to_cache (comparative_cache_key E cn as) r w1"
proof (cases "cache_hit (check_cache (comparative_cache_key E cn as) w)")
  case (Some c)
  have "generate_comparative_analysis E cn as w = (Inr c, w)"
    using generate_comparative_analysis_hit [OF Some] .
  with assms have "c = r" and "w' = w" by simp_all
  with Some show ?thesis using hit by blast
next
  case None
  note miss = this
  obtain res w1 where api: "call_api_with_retry E (aggregation_prompt E cn as) w = (res, w1)"
    by (cases "call_api_with_retry E (aggregation_prompt E cn as) w") auto
  note run = assms [unfolded generate_comparative_analysis_miss [OF miss] api, simplified]
  show ?thesis
  proof (cases res)
    case (Inl e)
    with run show ?thesis by simp
  next
    case (Inr response_text)
    note reply = this
    show ?thesis
    proof (cases "json_loads E (strip_fences response_text)")
      case None
      with run reply have "r = basic_result E as (tally_articles as) (mean_score as)"
        and "w' = save_to_cache (comparative_cache_key E cn as) r w1"
        by auto
      with miss None api reply show ?thesis using degraded by simp
    next
      case (Some parsed)
      with run reply have "complete_analysis E as (tally_articles as) (mean_score as) parsed = Inr r"
        and "w' = save_to_cache (comparative_cache_key E cn as) r w1"
        by (auto split: sum.splits)
      with miss Some api reply show ?thesis using completed by simp
    qed
  qed
qed

text \<open>A run that misses the cache and whose first attempt is answered.\<close>

lemma generate_comparative_analysis_answered:
  assumes "cache_hit (check_cache (comparative_cache_key E cn as) w) = None"
    and "respond E Gemini (length (calls w)) (aggregation_prompt E cn as) = Reply response_text"
  shows "call_api_with_retry E (aggregation_prompt E cn as) w =
     (Inr response_text, w\<lparr>calls := calls w @ [(Gemini, aggregation_prompt E cn as)]\<rparr>)"
  using call_api_with_retry_first [of E w "aggregation_prompt E cn as"] assms(2)
  by (simp add: is_rate_limited_def surfaced_def)

text \<open>
  Claim C2, as amended. When \<^verbatim>\<open>generate_comparative_analysis\<close> misses the cache and returns
  a record, the \<^verbatim>\<open>Sentiment_Distribution\<close> of the record is the distribution counted from
  the articles of this call, one count per article under its label, whatever the reply
  of the model proposed; and when every article carries one of the five labels, the five
  counts add up to the number of articles. (A cache hit returns the stored record as it
  is: see the counterexample.)
\<close>

theorem aggregate_distribution:
  assumes "cache_hit (check_cache (comparative_cache_key E cn as) w) = None"
    and "fst (generate_comparative_analysis E cn as w) = Inr r"
  shows "result_field ''Sentiment_Distribution'' (generate_comparative_analysis E cn as w) =
       Some (local_distribution as)
     \<and> ((\<forall>a\<in>set as. label_of a \<in> set five_labels) \<longrightarrow>
          sum_list (map (label_count as) five_labels) = length as)"
proof -
  obtain w' where run: "generate_comparative_analysis E cn as w = (Inr r, w')"
    using assms(2) by (cases "generate_comparative_analysis E cn as w") auto
  from run have "result_field ''Sentiment_Distribution'' (Inr r, w') = Some (local_distribution as)"
  proof (cases rule: generate_comparative_analysis_cases)
    case hit
    with assms(1) show ?thesis by simp
  next
    case (degraded response_text w1)
    then show ?thesis
      by (simp add: result_field_def basic_result_fields)
  next
    case (completed response_text w1 parsed)
    from completed(4) show ?thesis
      by (cases rule: complete_analysis_fields) (simp add: result_field_def)
  qed
  then show ?thesis
    using label_count_total by (simp add: run)
qed

lemma E2_aggregation:
  "\<exists>d. generate_comparative_analysis E2 cn as w0 =
     (Inr (JObj d),
      save_to_cache (comparative_cache_key E2 cn as) (JObj d)
        (w0\<lparr>calls := [(Gemini, aggregation_prompt E2 cn as)]\<rparr>))
     \<and> d \<noteq> [] \<and> map_of d ''Sentiment_Distribution'' = Some (local_distribution as)"
proof -
  have miss: "cache_hit (check_cache (comparative_cache_key E2 cn as) w0) = None"
    by (simp add: check_cache_def w0_def cache_hit_def)
  have api: "call_api_with_retry E2 (aggregation_prompt E2 cn as) w0 =
      (Inr ''{}'', w0\<lparr>calls := [(Gemini, aggregation_prompt E2 cn as)]\<rparr>)"
    using generate_comparative_analysis_answered [OF miss, of "''{}''"]
    by (simp add: E2_def w0_def)
  have parse: "json_loads E2 (strip_fences ''{}'') = Some (JObj [])"
    by (simp add: E2_def strip_fences_examples example_loads_def)
  obtain r where r: "complete_analysis E2 as (tally_articles as) (mean_score as) (JObj []) = Inr r"
    using complete_analysis_dict by blast
  from r obtain d where "r = JObj d" "d \<noteq> []"
    "map_of d ''Sentiment_Distribution'' = Some (local_distribution as)"
    by (cases rule: complete_analysis_fields) auto
  then show ?thesis
    using r by (simp add: generate_comparative_analysis_miss [OF miss] api parse)
qed

theorem aggregate_distribution_witness:
  "result_field ''Sentiment_Distribution''
     (generate_comparative_analysis E2 ''Acme'' [titled ''A'', titled ''B'', titled ''C''] w0) =
   Some (JObj [(''Very Positive'', JNum 0), (''Positive'', JNum 3), (''Neutral'', JNum 0),
               (''Negative'', JNum 0), (''Very Negative'', JNum 0)])
   \<and> sum_list (map (label_count [titled ''A'', titled ''B'', titled ''C'']) five_labels) = 3"
proof -
  let ?as = "[titled ''A'', titled ''B'', titled ''C'']"
  have h1: "cache_hit (check_cache (comparative_cache_key E2 ''Acme'' ?as) w0) = None"
    by (simp add: check_cache_def w0_def cache_hit_def)
  obtain d where h2: "fst (generate_comparative_analysis E2 ''Acme'' ?as w0) = Inr (JObj d)"
    using E2_aggregation [of "''Acme''" ?as] by auto
  have h3: "\<forall>a\<in>set ?as. label_of a \<in> set five_labels"
    by (simp add: label_of_def titled_def get_or_def five_labels_def)
  have "local_distribution ?as =
      JObj [(''Very Positive'', JNum 0), (''Positive'', JNum 3), (''Neutral'', JNum 0),
            (''Negative'', JNum 0), (''Very Negative'', JNum 0)]"
    by (simp add: local_distribution_def five_labels_def label_count_def label_of_def
        titled_def get_or_def)
  then show ?thesis
    using aggregate_distribution [OF h1 h2] h3 by simp
qed

text \<open>
  The claim as stated fails on a cache hit. The key is computed from the company name and
  the first 20 characters of the first three titles, so after an aggregation of three
  articles a call with these three and a fourth article is served from the cache: four
  Positive articles go in, and the distribution that comes back counts three.
\<close>

theorem aggregate_distribution_counterexample:
  "result_field ''Sentiment_Distribution''
     (generate_comparative_analysis E2 ''Acme''
        [titled ''A'', titled ''B'', titled ''C'', titled ''D'']
        (snd (generate_comparative_analysis E2 ''Acme'' [titled ''A'', titled ''B'', titled ''C''] w0))) =
   Some (JObj [(''Very Positive'', JNum 0), (''Positive'', JNum 3), (''Neutral'', JNum 0),
               (''Negative'', JNum 0), (''Very Negative'', JNum 0)])
   \<and> length [titled ''A'', titled ''B'', titled ''C'', titled ''D''] = 4"
proof -
  let ?abc = "[titled ''A'', titled ''B'', titled ''C'']"
  let ?abcd = "[titled ''A'', titled ''B'', titled ''C'', titled ''D'']"
  obtain d where first: "generate_comparative_analysis E2 ''Acme'' ?abc w0 =
     (Inr (JObj d),
      save_to_cache (comparative_cache_key E2 ''Acme'' ?abc) (JObj d)
        (w0\<lparr>calls := [(Gemini, aggregation_prompt E2 ''Acme'' ?abc)]\<rparr>))"
    and d: "d \<noteq> []" "map_of d ''Sentiment_Distribution'' = Some (local_distribution ?abc)"
    using E2_aggregation [of "''Acme''" ?abc] by auto
  have key: "comparative_cache_key E2 ''Acme'' ?abcd = comparative_cache_key E2 ''Acme'' ?abc"
    by (simp add: comparative_cache_key_def)
  have "cache_hit (check_cache (comparative_cache_key E2 ''Acme'' ?abcd)
          (snd (generate_comparative_analysis E2 ''Acme'' ?abc w0))) = Some (JObj d)"
    using d(1) by (simp add: first key check_cache_def save_to_cache_def cache_hit_def)
  then have "fst (generate_comparative_analysis E2 ''Acme'' ?abcd
          (snd (generate_comparative_analysis E2 ''Acme'' ?abc w0))) = Inr (JObj d)"
    by (simp add: generate_comparative_analysis_hit)
  moreover have "local_distribution ?abc =
      JObj [(''Very Positive'', JNum 0), (''Positive'', JNum 3), (''Neutral'', JNum 0),
            (''Negative'', JNum 0), (''Very Negative'', JNum 0)]"
    by (simp add: local_distribution_def five_labels_def label_count_def label_of_def
        titled_def get_or_def)
  ultimately show ?thesis
    using d(2) by (simp add: result_field_def)
qed

lemma list_of_set_props:
  "set (list_of_set E xs) = set xs" "distinct (list_of_set E xs)"
  "length (list_of_set E xs) = card (set xs)"
  by (simp_all add: list_of_set_def length_remdups_card_conv)

lemma common_topics_props:
  "set (take 5 (list_of_set E xs)) \<subseteq> set xs"
  "distinct (take 5 (list_of_set E xs))"
  "length (take 5 (list_of_set E xs)) = min 5 (card (set xs))"
  "card (set xs) \<le> 5 \<Longrightarrow> set (take 5 (list_of_set E xs)) = set xs"
  using set_take_subset [of 5 "list_of_set E xs"]
  by (simp_all add: list_of_set_props min.commute)

lemma call_api_with_retry_cache:
  assumes "call_api_with_retry E prompt w = (res, w1)"
  shows "cache w1 = cache w"
  using call_api_with_retry_run [of E prompt w] assms by auto

text \<open>
  A reply that \<^verbatim>\<open>json.loads\<close> rejects degrades. Let \<^verbatim>\<open>generate_comparative_analysis\<close> miss
  the cache. When the call of the model succeeds and the reply does not parse, the
  operation raises nothing: it returns the degraded record with the distribution and the
  mean computed from the articles, the fixed trend text, one fallback coverage entry, empty
  lists of positive and negative factors, and up to five of the observed topics; it makes
  no further call, and the cache then holds this record under the key. When the call of
  the model fails, its error is raised to the caller and nothing is stored.
\<close>

theorem aggregate_degrades_on_parse_failure:
  assumes "cache_hit (check_cache (comparative_cache_key E cn as) w) = None"
    and "call_api_with_retry E (aggregation_prompt E cn as) w = (res, w1)"
  shows "(\<forall>response_text.
            res = Inr response_text \<and> json_loads E (strip_fences response_text) = None \<longrightarrow>
            (let degraded =
               JObj [(''Sentiment_Distribution'', local_distribution as),
                     (''Average_Sentiment_Score'', JNum (mean_score as)),
                     (''Sentiment_Trend'', JStr ''Unable to determine due to processing error''),
                     (''Coverage_Differences'',
                        JArr [JObj [(''Comparison'', JStr ''Analysis encountered an error''),
                                    (''Articles_Involved'',
                                       JArr (map (\<lambda>a. JStr (get_or ''Unknown'' (Title a))) (take 2 as))),
                                    (''Impact'', JStr ''Complete comparative analysis not available'')]]),
                     (''Sentiment_Drivers'',
                        JObj [(''Positive_Factors'', JArr []), (''Negative_Factors'', JArr [])]),
                     (''Topic_Analysis'',
                        JObj [(''Common_Topics'',
                                 JArr (map JStr (take 5 (list_of_set E (observed_topics as))))),
                              (''Topic_Sentiment_Map'', JObj [])])]
             in fst (generate_comparative_analysis E cn as w) = Inr degraded
                \<and> calls (snd (generate_comparative_analysis E cn as w)) = calls w1
                \<and> cache (snd (generate_comparative_analysis E cn as w)) =
                    (cache w)(comparative_cache_key E cn as \<mapsto> degraded)))
     \<and> (\<forall>e. res = Inl e \<longrightarrow>
            generate_comparative_analysis E cn as w = (Inl e, w1) \<and> cache w1 = cache w)
     \<and> set (take 5 (list_of_set E (observed_topics as))) \<subseteq> set (observed_topics as)"
  using assms(2) call_api_with_retry_cache [OF assms(2)] common_topics_props(1)
  by (simp add: generate_comparative_analysis_miss [OF assms(1)] basic_result_fields
      articles_involved_def Let_def save_to_cache_def)

theorem aggregate_degrades_on_parse_failure_witness:
  "fst (generate_comparative_analysis E4 ''Acme'' [titled ''A'', titled ''B''] w0) =
     Inr (JObj [(''Sentiment_Distribution'',
                   JObj [(''Very Positive'', JNum 0), (''Positive'', JNum 2), (''Neutral'', JNum 0),
                         (''Negative'', JNum 0), (''Very Negative'', JNum 0)]),
                (''Average_Sentiment_Score'', JNum 4),
                (''Sentiment_Trend'', JStr ''Unable to determine due to processing error''),
                (''Coverage_Differences'',
                   JArr [JObj [(''Comparison'', JStr ''Analysis encountered an error''),
                               (''Articles_Involved'', JArr [JStr ''A'', JStr ''B'']),
                               (''Impact'', JStr ''Complete comparative analysis not available'')]]),
                (''Sentiment_Drivers'',
                   JObj [(''Positive_Factors'', JArr []), (''Negative_Factors'', JArr [])]),
                (''Topic_Analysis'',
                   JObj [(''Common_Topics'', JArr [JStr ''a'', JStr ''b'']),
                         (''Topic_Sentiment_Map'', JObj [])])])"
proof -
  let ?as = "[titled ''A'', titled ''B'']"
  let ?bad = \<open>''{"Sentiment_Trend": ''\<close>
  have h1: "cache_hit (check_cache (comparative_cache_key E4 ''Acme'' ?as) w0) = None"
    by (simp add: check_cache_def w0_def cache_hit_def)
  have h2: "call_api_with_retry E4 (aggregation_prompt E4 ''Acme'' ?as) w0 =
      (Inr ?bad, w0\<lparr>calls := [(Gemini, aggregation_prompt E4 ''Acme'' ?as)]\<rparr>)"
    using generate_comparative_analysis_answered [OF h1, of ?bad]
    by (simp add: E4_def E2_def w0_def)
  have h3: "json_loads E4 (strip_fences ?bad) = None"
    by (simp add: E4_def E2_def example_loads_def strip_fences_def starts_with_def)
  have v1: "local_distribution ?as =
      JObj [(''Very Positive'', JNum 0), (''Positive'', JNum 2), (''Neutral'', JNum 0),
            (''Negative'', JNum 0), (''Very Negative'', JNum 0)]"
    by (simp add: local_distribution_def five_labels_def label_count_def label_of_def
        titled_def get_or_def)
  have v2: "mean_score ?as = 4"
    by (simp add: mean_score_def titled_def get_or_def)
  have v3: "take 5 (list_of_set E4 (observed_topics ?as)) = [''a'', ''b'']"
    by (simp add: observed_topics_def titled_def get_or_def list_of_set_def E4_def E2_def)
  have v4: "get_or ''Unknown'' (Title (titled t)) = t" for t
    by (simp add: titled_def get_or_def)
  show ?thesis
    using aggregate_degrades_on_parse_failure [OF h1 h2] h3
    by (simp add: Let_def v1 v2 v3 v4)
qed

lemma result_field_completed:
  assumes "cache_hit (check_cache (comparative_cache_key E cn as) w) = None"
    and "call_api_with_retry E (aggregation_prompt E cn as) w = (Inr response_text, w1)"
    and "json_loads E (strip_fences response_text) = Some (JObj d)"
  obtains d' where
    "fst (generate_comparative_analysis E cn as w) = Inr (JObj d')"
    "complete_analysis E as (tally_articles as) (mean_score as) (JObj d) = Inr (JObj d')"
proof -
  obtain r where r: "complete_analysis E as (tally_articles as) (mean_score as) (JObj d) = Inr r"
    using complete_analysis_dict by blast
  then obtain d' where "r = JObj d'"
    by (cases rule: complete_analysis_fields) auto
  with r show ?thesis
    using that assms by (simp add: generate_comparative_analysis_miss)
qed

text \<open>
  Claim C7. Let \<^verbatim>\<open>generate_comparative_analysis\<close> miss the cache and the call of the model
  succeed. When the reply parses to an object in which \<^verbatim>\<open>Coverage_Differences\<close> is missing
  or empty (any falsy value), the result holds exactly one entry under that key: the fixed
  comparison and impact texts and, as the articles involved, the titles of the first two
  input articles as they are (\<^verbatim>\<open>Unknown\<close> for an article without a title). And whatever
  the reply, a record that is returned never has an empty \<^verbatim>\<open>Coverage_Differences\<close>.
\<close>

theorem coverage_differences_fallback:
  assumes "cache_hit (check_cache (comparative_cache_key E cn as) w) = None"
    and "call_api_with_retry E (aggregation_prompt E cn as) w = (Inr response_text, w1)"
  shows "(\<forall>d. json_loads E (strip_fences response_text) = Some (JObj d)
              \<and> (case map_of d ''Coverage_Differences'' of None \<Rightarrow> True | Some v \<Rightarrow> \<not> truthy v)
            \<longrightarrow> result_field ''Coverage_Differences'' (generate_comparative_analysis E cn as w) =
                  Some (JArr [JObj [(''Comparison'', JStr ''Differences in reporting emphasis''),
                                    (''Articles_Involved'',
                                       JArr (map (\<lambda>a. JStr (get_or ''Unknown'' (Title a))) (take 2 as))),
                                    (''Impact'',
                                       JStr ''Creates varied impressions of company priorities'')]]))
     \<and> (\<forall>r. fst (generate_comparative_analysis E cn as w) = Inr r \<longrightarrow>
            (\<exists>v. result_field ''Coverage_Differences'' (generate_comparative_analysis E cn as w) = Some v
                 \<and> truthy v))"
proof (intro conjI allI impI)
  fix d
  assume "json_loads E (strip_fences response_text) = Some (JObj d)
      \<and> (case map_of d ''Coverage_Differences'' of None \<Rightarrow> True | Some v \<Rightarrow> \<not> truthy v)"
  then have parse: "json_loads E (strip_fences response_text) = Some (JObj d)"
    and empty: "case map_of d ''Coverage_Differences'' of None \<Rightarrow> True | Some v \<Rightarrow> \<not> truthy v"
    by simp_all
  from assms parse obtain d' where
    ret: "fst (generate_comparative_analysis E cn as w) = Inr (JObj d')" and
    ca: "complete_analysis E as (tally_articles as) (mean_score as) (JObj d) = Inr (JObj d')"
    by (rule result_field_completed)
  from ca have "map_of d' ''Coverage_Differences'' = Some (JArr [fallback_difference as])"
    using empty by (cases rule: complete_analysis_fields) simp
  then show "result_field ''Coverage_Differences'' (generate_comparative_analysis E cn as w) =
      Some (JArr [JObj [(''Comparison'', JStr ''Differences in reporting emphasis''),
                        (''Articles_Involved'',
                           JArr (map (\<lambda>a. JStr (get_or ''Unknown'' (Title a))) (take 2 as))),
                        (''Impact'', JStr ''Creates varied impressions of company priorities'')]])"
    by (simp add: result_field_def ret fallback_difference_def articles_involved_def)
next
  fix r
  assume "fst (generate_comparative_analysis E cn as w) = Inr r"
  then obtain w' where run: "generate_comparative_analysis E cn as w = (Inr r, w')"
    by (cases "generate_comparative_analysis E cn as w") auto
  from run have "\<exists>v. result_field ''Coverage_Differences'' (Inr r, w') = Some v \<and> truthy v"
  proof (cases rule: generate_comparative_analysis_cases)
    case hit
    with assms(1) show ?thesis by simp
  next
    case (degraded response_text w1)
    then show ?thesis
      by (simp add: result_field_def basic_result_fields)
  next
    case (completed response_text w1 parsed)
    from completed(4) show ?thesis
      by (cases rule: complete_analysis_fields)
         (auto simp: result_field_def split: option.splits if_splits)
  qed
  then show "\<exists>v. result_field ''Coverage_Differences'' (generate_comparative_analysis E cn as w) = Some v
      \<and> truthy v"
    by (simp add: run)
qed

theorem coverage_differences_fallback_witness:
  "result_field ''Coverage_Differences''
     (generate_comparative_analysis E2 ''Acme'' [titled ''A'', titled ''B'', titled ''C''] w0) =
   Some (JArr [JObj [(''Comparison'', JStr ''Differences in reporting emphasis''),
                     (''Articles_Involved'', JArr [JStr ''A'', JStr ''B'']),
                     (''Impact'', JStr ''Creates varied impressions of company priorities'')]])"
proof -
  let ?as = "[titled ''A'', titled ''B'', titled ''C'']"
  have h1: "cache_hit (check_cache (comparative_cache_key E2 ''Acme'' ?as) w0) = None"
    by (simp add: check_cache_def w0_def cache_hit_def)
  have h2: "call_api_with_retry E2 (aggregation_prompt E2 ''Acme'' ?as) w0 =
      (Inr ''{}'', w0\<lparr>calls := [(Gemini, aggregation_prompt E2 ''Acme'' ?as)]\<rparr>)"
    using generate_comparative_analysis_answered [OF h1, of "''{}''"]
    by (simp add: E2_def w0_def)
  have h3: "json_loads E2 (strip_fences ''{}'') = Some (JObj [])"
    by (simp add: E2_def strip_fences_examples example_loads_def)
  have v4: "get_or ''Unknown'' (Title (titled t)) = t" for t
    by (simp add: titled_def get_or_def)
  show ?thesis
    using coverage_differences_fallback [OF h1 h2] h3
    by (simp add: v4)
qed

text \<open>
  Claim C8, as amended. Let \<^verbatim>\<open>generate_comparative_analysis\<close> miss the cache, the call of the
  model succeed and the reply parse to an object without \<^verbatim>\<open>Topic_Analysis\<close>. Then the
  \<^verbatim>\<open>Topic_Sentiment_Map\<close> of the result is the empty mapping and its \<^verbatim>\<open>Common_Topics\<close> are the
  first five elements of \<^verbatim>\<open>list(set(all_topics))\<close>: pairwise distinct topics of the input
  articles, five of them or all when there are fewer, in the iteration order of the set,
  which need not be the order in which the topics were seen.
\<close>

theorem default_common_topics:
  assumes "cache_hit (check_cache (comparative_cache_key E cn as) w) = None"
    and "call_api_with_retry E (aggregation_prompt E cn as) w = (Inr response_text, w1)"
    and "json_loads E (strip_fences response_text) = Some (JObj d)"
    and "map_of d ''Topic_Analysis'' = None"
  shows "result_field ''Topic_Analysis'' (generate_comparative_analysis E cn as w) =
       Some (JObj [(''Common_Topics'', JArr (map JStr (take 5 (list_of_set E (observed_topics as))))),
                   (''Topic_Sentiment_Map'', JObj [])])
     \<and> distinct (take 5 (list_of_set E (observed_topics as)))
     \<and> set (take 5 (list_of_set E (observed_topics as))) \<subseteq> set (observed_topics as)
     \<and> length (take 5 (list_of_set E (observed_topics as))) = min 5 (card (set (observed_topics as)))
     \<and> (card (set (observed_topics as)) \<le> 5 \<longrightarrow>
          set (take 5 (list_of_set E (observed_topics as))) = set (observed_topics as))"
proof -
  from assms(1,2,3) obtain d' where
    ret: "fst (generate_comparative_analysis E cn as w) = Inr (JObj d')" and
    ca: "complete_analysis E as (tally_articles as) (mean_score as) (JObj d) = Inr (JObj d')"
    by (rule result_field_completed)
  from ca have "map_of d' ''Topic_Analysis'' = Some (default_topic_analysis E (observed_topics as))"
    using assms(4) by (cases rule: complete_analysis_fields) simp
  then show ?thesis
    using common_topics_props [where E = E and xs = "observed_topics as"]
    by (simp add: result_field_def ret default_topic_analysis_def)
qed

theorem default_common_topics_witness:
  "result_field ''Topic_Analysis'' (generate_comparative_analysis E2 ''Acme'' [titled ''A''] w0) =
     Some (JObj [(''Common_Topics'', JArr [JStr ''a'', JStr ''b'']),
                 (''Topic_Sentiment_Map'', JObj [])])"
proof -
  let ?as = "[titled ''A'']"
  have h1: "cache_hit (check_cache (comparative_cache_key E2 ''Acme'' ?as) w0) = None"
    by (simp add: check_cache_def w0_def cache_hit_def)
  have h2: "call_api_with_retry E2 (aggregation_prompt E2 ''Acme'' ?as) w0 =
      (Inr ''{}'', w0\<lparr>calls := [(Gemini, aggregation_prompt E2 ''Acme'' ?as)]\<rparr>)"
    using generate_comparative_analysis_answered [OF h1, of "''{}''"]
    by (simp add: E2_def w0_def)
  have h3: "json_loads E2 (strip_fences ''{}'') = Some (JObj [])"
    by (simp add: E2_def strip_fences_examples example_loads_def)
  have h4: "map_of ([] :: (string \<times> json) list) ''Topic_Analysis'' = None"
    by simp
  have v: "take 5 (list_of_set E2 (observed_topics ?as)) = [''a'', ''b'']"
    by (simp add: observed_topics_def titled_def get_or_def list_of_set_def E2_def)
  show ?thesis
    using default_common_topics [OF h1 h2 h3 h4] by (simp add: v)
qed

text \<open>
  The claim as stated fails where the set lists \<^verbatim>\<open>b\<close> before \<^verbatim>\<open>a\<close>: the article gives
  its topics as a, b, and the result has them as b, a.
\<close>

theorem default_common_topics_counterexample:
  "result_field ''Topic_Analysis'' (generate_comparative_analysis E3 ''Acme'' [titled ''A''] w0) =
     Some (JObj [(''Common_Topics'', JArr [JStr ''b'', JStr ''a'']),
                 (''Topic_Sentiment_Map'', JObj [])])
   \<and> take 5 (first_seen (observed_topics [titled ''A''])) = [''a'', ''b'']"
proof -
  let ?as = "[titled ''A'']"
  have h1: "cache_hit (check_cache (comparative_cache_key E3 ''Acme'' ?as) w0) = None"
    by (simp add: check_cache_def w0_def cache_hit_def)
  have h2: "call_api_with_retry E3 (aggregation_prompt E3 ''Acme'' ?as) w0 =
      (Inr ''{}'', w0\<lparr>calls := [(Gemini, aggregation_prompt E3 ''Acme'' ?as)]\<rparr>)"
    using generate_comparative_analysis_answered [OF h1, of "''{}''"]
    by (simp add: E3_def E2_def w0_def)
  have h3: "json_loads E3 (strip_fences ''{}'') = Some (JObj [])"
    by (simp add: E3_def E2_def strip_fences_examples example_loads_def)
  obtain d' where
    ret: "fst (generate_comparative_analysis E3 ''Acme'' ?as w0) = Inr (JObj d')" and
    ca: "complete_analysis E3 ?as (tally_articles ?as) (mean_score ?as) (JObj []) = Inr (JObj d')"
    using h1 h2 h3 by (rule result_field_completed)
  from ca have "map_of d' ''Topic_Analysis'' = Some (default_topic_analysis E3 (observed_topics ?as))"
    by (cases rule: complete_analysis_fields) simp
  moreover have "take 5 (list_of_set E3 (observed_topics ?as)) = [''b'', ''a'']"
    by (simp add: observed_topics_def titled_def get_or_def list_of_set_def E3_def E2_def)
  moreover have "take 5 (first_seen (observed_topics ?as)) = [''a'', ''b'']"
    by (simp add: observed_topics_def titled_def get_or_def first_seen_def)
  ultimately show ?thesis
    by (simp add: result_field_def ret default_topic_analysis_def)
qed

subsection \<open>Translation\<close>

lemma chunks_of_concat: "0 < n \<Longrightarrow> concat (chunks_of n str) = str"
proof (induction n str rule: chunks_of.induct)
  case (1 n str)
  then show ?case
    by (subst chunks_of.simps) auto
qed





lemma chunks_of_two:
  assumes "length xs = n" and "length ys = n" and "0 < n"
  shows "chunks_of n (xs @ ys) = [xs, ys]"
proof -
  have "xs \<noteq> []" "ys \<noteq> []" using assms by auto
  then show ?thesis
    using assms
    by (simp add: chunks_of.simps [of n "xs @ ys"] chunks_of.simps [of n ys]
        chunks_of.simps [of n "[]"])
qed


lemma not_reply: "\<not> is_reply out \<Longrightarrow> \<exists>msg. out = Fails msg"
  by (cases out) auto


lemma call_api_with_retry_tcache:
  assumes "call_api_with_retry E prompt w = (res, w1)"
  shows "tcache w1 = tcache w"
  using call_api_with_retry_run [of E prompt w] assms by auto

text \<open>When every external call fails, a chunk comes back as it went in.\<close>

lemma call_api_with_retry_all_fail:
  assumes "\<forall>s n p. \<not> is_reply (respond E s n p)"
  shows "\<exists>e. fst (call_api_with_retry E prompt w) = Inl e"
proof -
  obtain k where "call_api_with_retry E prompt w =
     (surfaced (respond E Gemini (length (calls w) + k) prompt),
      w\<lparr>calls := calls w @ replicate (Suc k) (Gemini, prompt),
        slept := slept w @ map (\<lambda>i. rate_limit_backoff * 2 ^ i) [0..<k]\<rparr>)"
    using call_api_with_retry_run [of E prompt w] by blast
  moreover obtain msg where "respond E Gemini (length (calls w) + k) prompt = Fails msg"
    using assms not_reply by blast
  ultimately show ?thesis by (simp add: surfaced_def)
qed

lemma fallback_translate_all_fail:
  assumes "\<forall>s n p. \<not> is_reply (respond E s n p)"
  shows "fst (fallback_translate E chunk w) = chunk"
proof -
  obtain msg where "respond E MyMemory (length (calls w)) chunk = Fails msg"
    using assms not_reply by blast
  then show ?thesis
    by (simp add: fallback_translate_def external_call_def)
qed

lemma backend_call_all_fail:
  assumes "\<forall>s n p. \<not> is_reply (respond E s n p)"
  shows "\<exists>e. fst (backend_call E s chunk w) = Inl e"
proof -
  obtain msg where "respond E s (length (calls w)) chunk = Fails msg"
    using assms not_reply by blast
  then show ?thesis
    by (simp add: backend_call_def external_call_def)
qed

lemma translate_chunk_all_fail:
  assumes "\<forall>s n p. \<not> is_reply (respond E s n p)"
  shows "fst (translate_chunk E C chunk w) = chunk"
proof (cases "dispatch_translate E C chunk w")
  case (Pair res w')
  show ?thesis
  proof (cases res)
    case (Inl e)
    with Pair show ?thesis
      by (simp add: translate_chunk_def fallback_translate_all_fail [OF assms])
  next
    case (Inr t)
    have gem: "\<exists>e. fst (gemini_translate E chunk w) = Inl e"
      using call_api_with_retry_all_fail [OF assms, of "translate_prompt chunk" w]
      by (auto simp: gemini_translate_def split: prod.splits sum.splits)
    have "fst (fallback_translate E chunk w) = t"
      using Pair Inr gem
        backend_call_all_fail [OF assms, of GoogleTranslate chunk w]
        backend_call_all_fail [OF assms, of IndicNLP chunk w]
        backend_call_all_fail [OF assms, of Argos chunk w]
        backend_call_all_fail [OF assms, of LibreTranslate chunk w]
      by (auto simp: dispatch_translate_def split: if_splits prod.splits)
    then show ?thesis
      using Pair Inr by (simp add: translate_chunk_def fallback_translate_all_fail [OF assms])
  qed
qed

lemma translate_chunks_all_fail:
  assumes "\<forall>s n p. \<not> is_reply (respond E s n p)"
  shows "fst (translate_chunks E C chunks w) = chunks"
proof (induction chunks arbitrary: w)
  case Nil
  then show ?case by simp
next
  case (Cons chunk chunks)
  obtain t w1 where first: "translate_chunk E C chunk (sleep 1 w) = (t, w1)"
    by (cases "translate_chunk E C chunk (sleep 1 w)") auto
  obtain ts w2 where rest: "translate_chunks E C chunks w1 = (ts, w2)"
    by (cases "translate_chunks E C chunks w1") auto
  have "t = chunk"
    using translate_chunk_all_fail [OF assms, of C chunk "sleep 1 w"] first by simp
  moreover have "ts = chunks"
    using Cons.IH [of w1] rest by simp
  ultimately show ?case
    by (simp only: translate_chunks.simps first rest prod.case fst_conv)
qed




text \<open>\<^verbatim>\<open>_translate_chunk\<close> after a failure of its \<^verbatim>\<open>try\<close> block: one call of the fallback
  translator with the chunk; its reply, or the chunk itself when it fails too.\<close>

lemma translate_chunk_fallback:
  assumes "dispatch_translate E C chunk w = (Inl e, w1)"
  shows "translate_chunk E C chunk w =
     (case respond E MyMemory (length (calls w1)) chunk of
        Reply t \<Rightarrow> t | Fails msg \<Rightarrow> chunk,
      w1\<lparr>calls := calls w1 @ [(MyMemory, chunk)]\<rparr>)"
  using assms
  by (simp add: translate_chunk_def fallback_translate_def external_call_def
      split: outcome.splits)

text \<open>The same for a backend that is one request, in terms of the two outcomes.\<close>

lemma translate_chunk_single_request:
  assumes "fst (primary_request C chunk) \<noteq> Gemini"
    and "fst (primary_request C chunk) \<noteq> MyMemory"
    and "respond E (fst (primary_request C chunk)) (length (calls w)) chunk = Fails msg"
  shows "translate_chunk E C chunk w =
     (case respond E MyMemory (Suc (length (calls w))) chunk of
        Reply t \<Rightarrow> t | Fails msg' \<Rightarrow> chunk,
      w\<lparr>calls := calls w @ [(fst (primary_request C chunk), chunk), (MyMemory, chunk)]\<rparr>)"
proof -
  have "dispatch_translate E C chunk w =
      (Inl (ApiError msg), w\<lparr>calls := calls w @ [(fst (primary_request C chunk), chunk)]\<rparr>)"
    using assms
    by (auto simp: primary_request_def dispatch_translate_def backend_call_def
        external_call_def split: if_splits)
  from translate_chunk_fallback [OF this] show ?thesis by simp
qed

lemma translate_to_hindi_multi_cached:
  assumes "translation_hit (check_translation_cache (translation_cache_key E text) w) = None"
  shows "check_translation_cache (translation_cache_key E text)
           (snd (translate_to_hindi_multi E C text w)) =
         Some (fst (translate_to_hindi_multi E C text w))"
  using assms
  by (auto simp: translate_to_hindi_multi_def check_translation_cache_def
      save_translation_to_cache_def split: prod.splits)





lemma two_chunks_chunks:
  "chunks_of 4000 two_chunks = [replicate 4000 CHR ''a'', replicate 4000 CHR ''b'']"
  unfolding two_chunks_def by (rule chunks_of_two) simp_all



text \<open>A failed call in the Gemini-only variant, and the multi-backend variant when every
  external call fails.\<close>

lemma translation_failure_all:
  assumes "translation_hit (check_translation_cache (translation_cache_key E text) w) = None"
  shows "(\<forall>e. fst (call_api_with_retry E (translate_prompt text) w) = Inl e \<longrightarrow>
            translate_to_hindi E text w =
              (Inl TranslationFailed, snd (call_api_with_retry E (translate_prompt text) w))
            \<and> tcache (snd (translate_to_hindi E text w)) = tcache w)
     \<and> ((\<forall>s n p. \<not> is_reply (respond E s n p)) \<longrightarrow>
          fst (translate_to_hindi_multi E C text w) = text)"
proof (intro conjI allI impI)
  fix e
  assume fails: "fst (call_api_with_retry E (translate_prompt text) w) = Inl e"
  obtain w1 where api: "call_api_with_retry E (translate_prompt text) w = (Inl e, w1)"
    using fails by (cases "call_api_with_retry E (translate_prompt text) w") auto
  then show "translate_to_hindi E text w =
      (Inl TranslationFailed, snd (call_api_with_retry E (translate_prompt text) w))"
    using assms by (simp add: translate_to_hindi_def)
  then show "tcache (snd (translate_to_hindi E text w)) = tcache w"
    using call_api_with_retry_tcache [OF api] api by simp
next
  assume all: "\<forall>s n p. \<not> is_reply (respond E s n p)"
  show "fst (translate_to_hindi_multi E C text w) = text"
  proof (cases "max_chunk_size < length text")
    case True
    have "fst (translate_chunks E C (chunks_of max_chunk_size text) w) = chunks_of max_chunk_size text"
      by (rule translate_chunks_all_fail [OF all])
    moreover have "concat (chunks_of max_chunk_size text) = text"
      by (rule chunks_of_concat) (simp add: max_chunk_size_def)
    ultimately show ?thesis
      using assms True
      by (auto simp: translate_to_hindi_multi_def split: prod.splits)
  next
    case False
    then show ?thesis
      using assms translate_chunk_all_fail [OF all, of C "text" w]
      by (auto simp: translate_to_hindi_multi_def split: prod.splits)
  qed
qed

lemma E6_all_fail: "\<forall>s n p. \<not> is_reply (respond E6 s n p)"
  by (simp add: E6_def)

text \<open>
  Claim C5, as amended. Let the translation miss its cache. In the Gemini-only variant a
  failure of the call of the retry wrapper aborts the operation: it raises the translation
  error, returns no text and leaves the translation cache as it was. The multi-backend
  variant raises nothing. When the \<^verbatim>\<open>try\<close> block of \<^verbatim>\<open>_translate_chunk\<close> fails for a chunk,
  the fallback translator is called once with that chunk, and the chunk's result is the
  reply of the fallback or, when the fallback fails too, the untranslated chunk; for a
  backend that is one request this means two calls, the failed request and the fallback.
  So when every external call fails the result is the source text itself; and whatever
  the result is, it is stored in the translation cache.
\<close>

theorem translation_failure:
  assumes "translation_hit (check_translation_cache (translation_cache_key E source) w) = None"
  shows "(\<forall>e. fst (call_api_with_retry E (translate_prompt source) w) = Inl e \<longrightarrow>
            translate_to_hindi E source w =
              (Inl TranslationFailed, snd (call_api_with_retry E (translate_prompt source) w))
            \<and> tcache (snd (translate_to_hindi E source w)) = tcache w)
     \<and> (\<forall>chunk w' e w1.
            dispatch_translate E C chunk w' = (Inl e, w1) \<longrightarrow>
            translate_chunk E C chunk w' =
              (case respond E MyMemory (length (calls w1)) chunk of
                 Reply t \<Rightarrow> t | Fails msg \<Rightarrow> chunk,
               w1\<lparr>calls := calls w1 @ [(MyMemory, chunk)]\<rparr>))
     \<and> (\<forall>chunk w' msg.
            fst (primary_request C chunk) \<noteq> Gemini
            \<and> fst (primary_request C chunk) \<noteq> MyMemory
            \<and> respond E (fst (primary_request C chunk)) (length (calls w')) chunk = Fails msg \<longrightarrow>
            translate_chunk E C chunk w' =
              (case respond E MyMemory (Suc (length (calls w'))) chunk of
                 Reply t \<Rightarrow> t | Fails msg' \<Rightarrow> chunk,
               w'\<lparr>calls := calls w' @ [(fst (primary_request C chunk), chunk), (MyMemory, chunk)]\<rparr>))
     \<and> ((\<forall>s n p. \<not> is_reply (respond E s n p)) \<longrightarrow>
          fst (translate_to_hindi_multi E C source w) = source)
     \<and> check_translation_cache (translation_cache_key E source)
          (snd (translate_to_hindi_multi E C source w)) =
        Some (fst (translate_to_hindi_multi E C source w))"
proof -
  have a: "\<forall>e. fst (call_api_with_retry E (translate_prompt source) w) = Inl e \<longrightarrow>
            translate_to_hindi E source w =
              (Inl TranslationFailed, snd (call_api_with_retry E (translate_prompt source) w))
            \<and> tcache (snd (translate_to_hindi E source w)) = tcache w"
    and d: "(\<forall>s n p. \<not> is_reply (respond E s n p)) \<longrightarrow>
          fst (translate_to_hindi_multi E C source w) = source"
    using translation_failure_all [OF assms, of C] by blast+
  have b: "\<forall>chunk w' e w1.
            dispatch_translate E C chunk w' = (Inl e, w1) \<longrightarrow>
            translate_chunk E C chunk w' =
              (case respond E MyMemory (length (calls w1)) chunk of
                 Reply t \<Rightarrow> t | Fails msg \<Rightarrow> chunk,
               w1\<lparr>calls := calls w1 @ [(MyMemory, chunk)]\<rparr>)"
    using translate_chunk_fallback by blast
  have c: "\<forall>chunk w' msg.
            fst (primary_request C chunk) \<noteq> Gemini
            \<and> fst (primary_request C chunk) \<noteq> MyMemory
            \<and> respond E (fst (primary_request C chunk)) (length (calls w')) chunk = Fails msg \<longrightarrow>
            translate_chunk E C chunk w' =
              (case respond E MyMemory (Suc (length (calls w'))) chunk of
                 Reply t \<Rightarrow> t | Fails msg' \<Rightarrow> chunk,
               w'\<lparr>calls := calls w' @ [(fst (primary_request C chunk), chunk), (MyMemory, chunk)]\<rparr>)"
    using translate_chunk_single_request by blast
  note e = translate_to_hindi_multi_cached [OF assms, of C]
  from a b c d e show ?thesis by (intro conjI)
qed

theorem translation_failure_witness:
  "fst (translate_to_hindi E6 ''hello'' w0) = Inl TranslationFailed
   \<and> tcache (snd (translate_to_hindi E6 ''hello'' w0)) = tcache w0
   \<and> fst (translate_to_hindi_multi E6 libre ''hello'' w0) = ''hello''
   \<and> translate_chunk E9 libre ''hello'' w0 =
       (''ersatz'', w0\<lparr>calls := [(LibreTranslate, ''hello''), (MyMemory, ''hello'')]\<rparr>)
   \<and> translate_chunk E6 libre ''hello'' w0 =
       (''hello'', w0\<lparr>calls := [(LibreTranslate, ''hello''), (MyMemory, ''hello'')]\<rparr>)"
proof -
  have h6: "translation_hit (check_translation_cache (translation_cache_key E6 ''hello'') w0) = None"
    by (simp add: check_translation_cache_def w0_def translation_hit_def)
  have h9: "translation_hit (check_translation_cache (translation_cache_key E9 ''hello'') w0) = None"
    by (simp add: check_translation_cache_def w0_def translation_hit_def)
  obtain e where h2: "fst (call_api_with_retry E6 (translate_prompt ''hello'') w0) = Inl e"
    using call_api_with_retry_all_fail [OF E6_all_fail] by blast
  have req: "fst (primary_request libre ''hello'') = LibreTranslate"
    by (simp add: primary_request_def libre_def)
  note t6 = translation_failure [OF h6, of libre]
  note t9 = translation_failure [OF h9, of libre]
  from t6 h2 have "translate_to_hindi E6 ''hello'' w0 =
        (Inl TranslationFailed, snd (call_api_with_retry E6 (translate_prompt ''hello'') w0))"
    and t: "tcache (snd (translate_to_hindi E6 ''hello'' w0)) = tcache w0"
    by blast+
  then have r1: "fst (translate_to_hindi E6 ''hello'' w0) = Inl TranslationFailed"
    by simp
  from t6 E6_all_fail have r3: "fst (translate_to_hindi_multi E6 libre ''hello'' w0) = ''hello''"
    by blast
  have f9: "fst (primary_request libre ''hello'') \<noteq> Gemini
      \<and> fst (primary_request libre ''hello'') \<noteq> MyMemory
      \<and> respond E9 (fst (primary_request libre ''hello'')) (length (calls w0)) ''hello'' =
          Fails ''503 unavailable''"
    by (simp add: req E9_def)
  with t9 have "translate_chunk E9 libre ''hello'' w0 =
      (case respond E9 MyMemory (Suc (length (calls w0))) ''hello'' of
         Reply t \<Rightarrow> t | Fails msg' \<Rightarrow> ''hello'',
       w0\<lparr>calls := calls w0 @ [(fst (primary_request libre ''hello''), ''hello''),
                               (MyMemory, ''hello'')]\<rparr>)"
    by blast
  then have r4: "translate_chunk E9 libre ''hello'' w0 =
       (''ersatz'', w0\<lparr>calls := [(LibreTranslate, ''hello''), (MyMemory, ''hello'')]\<rparr>)"
    by (simp add: req E9_def w0_def)
  have f6: "fst (primary_request libre ''hello'') \<noteq> Gemini
      \<and> fst (primary_request libre ''hello'') \<noteq> MyMemory
      \<and> respond E6 (fst (primary_request libre ''hello'')) (length (calls w0)) ''hello'' =
          Fails ''503 unavailable''"
    by (simp add: req E6_def)
  with t6 have "translate_chunk E6 libre ''hello'' w0 =
      (case respond E6 MyMemory (Suc (length (calls w0))) ''hello'' of
         Reply t \<Rightarrow> t | Fails msg' \<Rightarrow> ''hello'',
       w0\<lparr>calls := calls w0 @ [(fst (primary_request libre ''hello''), ''hello''),
                               (MyMemory, ''hello'')]\<rparr>)"
    by blast
  then have r5: "translate_chunk E6 libre ''hello'' w0 =
       (''hello'', w0\<lparr>calls := [(LibreTranslate, ''hello''), (MyMemory, ''hello'')]\<rparr>)"
    by (simp add: req E6_def w0_def)
  from r1 t r3 r4 r5 show ?thesis by (intro conjI)
qed

text \<open>
  The claim as stated fails on the multi-backend variant: the request for the first of
  two chunks is answered, every later call fails, and the operation returns the
  translation of the first chunk followed by the untranslated second chunk.
\<close>

theorem translation_failure_counterexample:
  "fst (translate_to_hindi_multi E7 libre two_chunks w0) = ''eins'' @ replicate 4000 CHR ''b''"
proof -
  have "translation_hit (check_translation_cache (translation_cache_key E7 two_chunks) w0) = None"
    by (simp add: check_translation_cache_def w0_def translation_hit_def)
  moreover have "max_chunk_size < length two_chunks"
    by (simp add: two_chunks_def max_chunk_size_def)
  moreover have "chunks_of max_chunk_size two_chunks =
      [replicate 4000 CHR ''a'', replicate 4000 CHR ''b'']"
    by (simp add: max_chunk_size_def two_chunks_chunks)
  moreover have "fst (translate_chunks E7 libre
      [replicate 4000 CHR ''a'', replicate 4000 CHR ''b''] w0) =
      [''eins'', replicate 4000 CHR ''b'']"
    by (simp add: translate_chunk_def dispatch_translate_def libre_def backend_call_def
        external_call_def fallback_translate_def sleep_def E7_def w0_def)
  ultimately show ?thesis
    by (auto simp: translate_to_hindi_multi_def split: prod.splits)
qed

subsection \<open>The model is faithful where it indexes and where it cannot fail\<close>

lemma split_from_not_Nil: "split_from sep cur s \<noteq> []"
  by (induction sep cur s rule: split_from.induct) (simp_all add: split_from.simps)

text \<open>Where the program indexes the pieces of a split, the index is in range: a string
  that contains the separator splits into at least two pieces.\<close>

lemma split_from_two:
  "sep \<noteq> [] \<Longrightarrow> contains sep s \<Longrightarrow> 2 \<le> length (split_from sep cur s)"
proof (induction sep cur s rule: split_from.induct)
  case (1 sep cur)
  then show ?case by simp
next
  case (2 sep cur c cs)
  show ?case
  proof (cases "starts_with sep (c # cs)")
    case True
    then have "split_from sep cur (c # cs) = cur # split_from sep [] (drop (length sep) (c # cs))"
      using "2.prems"(1) by (simp add: split_from.simps)
    moreover have "split_from sep [] (drop (length sep) (c # cs)) \<noteq> []"
      by (rule split_from_not_Nil)
    ultimately show ?thesis
      by (cases "split_from sep [] (drop (length sep) (c # cs))") simp_all
  next
    case False
    then have "split_from sep cur (c # cs) = split_from sep (cur @ [c]) cs"
      by (simp add: split_from.simps)
    moreover have "contains sep cs"
      using "2.prems"(2) False by simp
    ultimately show ?thesis
      using "2.IH"(2) "2.prems"(1) False by simp
  qed
qed

lemma split_str_index:
  "sep \<noteq> [] \<Longrightarrow> contains sep s \<Longrightarrow> 1 < length (split_str sep s)"
  using split_from_two [of sep s "[]"] by (simp add: split_str_def)

lemma split_str_not_Nil: "split_str sep s \<noteq> []"
  by (simp add: split_str_def split_from_not_Nil)

text \<open>The branch \<^verbatim>\<open>raise Exception("Max retries reached for API call")\<close> after the loop
  is never taken.\<close>

lemma call_api_with_retry_not_max: "fst (call_api_with_retry E prompt w) \<noteq> Inl MaxRetries"
proof -
  obtain k where "fst (call_api_with_retry E prompt w) =
      surfaced (respond E Gemini (length (calls w) + k) prompt)"
    using call_api_with_retry_run [of E prompt w] by auto
  then show ?thesis
    by (cases "respond E Gemini (length (calls w) + k) prompt") (simp_all add: surfaced_def)
qed

subsection \<open>Article analysis and the shared cache directory\<close>

text \<open>The record an aggregation of one article returns when the model replies \<^verbatim>\<open>{}\<close>.\<close>

lemma complete_analysis_empty:
  "complete_analysis E as t avg (JObj []) =
     Inr (JObj [(''Sentiment_Distribution'', dist_json (sentiment_dist t)),
                (''Average_Sentiment_Score'', JNum avg),
                (''Coverage_Differences'', JArr [fallback_difference as]),
                (''Sentiment_Drivers'', empty_drivers),
                (''Topic_Analysis'', default_topic_analysis E (all_topics t))])"
  by (simp add: complete_analysis_def Let_def)

text \<open>
  The claim as stated fails on a cache hit. All operations of the service write to one
  cache directory under the hash of a string, and the string of the article with title
  \<^verbatim>\<open>comp\<close> and content \<^verbatim>\<open>Acme_A\<close> is the string of the aggregation for the company
  \<^verbatim>\<open>Acme\<close> and one article titled \<^verbatim>\<open>A\<close>. After that aggregation, the analysis of the
  article returns the aggregation's record, which has no \<^verbatim>\<open>Sentiment\<close> and no
  \<^verbatim>\<open>Sentiment_Score\<close> at all.
\<close>

theorem analyze_article_label_counterexample:
  "analyze_article E2 ''comp'' ''Acme_A''
     (snd (generate_comparative_analysis E2 ''Acme'' [titled ''A''] w0)) =
   (fst (generate_comparative_analysis E2 ''Acme'' [titled ''A''] w0),
    snd (generate_comparative_analysis E2 ''Acme'' [titled ''A''] w0))
   \<and> result_field ''Sentiment''
        (generate_comparative_analysis E2 ''Acme'' [titled ''A''] w0) = None
   \<and> result_field ''Sentiment_Score''
        (generate_comparative_analysis E2 ''Acme'' [titled ''A''] w0) = None
   \<and> result_field ''Coverage_Differences''
        (analyze_article E2 ''comp'' ''Acme_A''
           (snd (generate_comparative_analysis E2 ''Acme'' [titled ''A''] w0))) =
      Some (JArr [fallback_difference [titled ''A'']])"
proof -
  let ?as = "[titled ''A'']"
  let ?rec = "JObj [(''Sentiment_Distribution'', dist_json (sentiment_dist (tally_articles ?as))),
                (''Average_Sentiment_Score'', JNum (mean_score ?as)),
                (''Coverage_Differences'', JArr [fallback_difference ?as]),
                (''Sentiment_Drivers'', empty_drivers),
                (''Topic_Analysis'', default_topic_analysis E2 (all_topics (tally_articles ?as)))]"
  have miss: "cache_hit (check_cache (comparative_cache_key E2 ''Acme'' ?as) w0) = None"
    by (simp add: check_cache_def w0_def cache_hit_def)
  have api: "call_api_with_retry E2 (aggregation_prompt E2 ''Acme'' ?as) w0 =
      (Inr ''{}'', w0\<lparr>calls := [(Gemini, aggregation_prompt E2 ''Acme'' ?as)]\<rparr>)"
    using generate_comparative_analysis_answered [OF miss, of "''{}''"]
    by (simp add: E2_def w0_def)
  have parse: "json_loads E2 (strip_fences ''{}'') = Some (JObj [])"
    by (simp add: E2_def strip_fences_examples example_loads_def)
  have run: "generate_comparative_analysis E2 ''Acme'' ?as w0 =
      (Inr ?rec, save_to_cache (comparative_cache_key E2 ''Acme'' ?as) ?rec
         (w0\<lparr>calls := [(Gemini, aggregation_prompt E2 ''Acme'' ?as)]\<rparr>))"
    by (simp add: generate_comparative_analysis_miss [OF miss] api parse complete_analysis_empty)
  have key: "article_cache_key E2 ''comp'' ''Acme_A'' = comparative_cache_key E2 ''Acme'' ?as"
    by (simp add: article_cache_key_def comparative_cache_key_def get_cache_key_def E2_def
        titled_def get_or_def)
  have hit: "cache_hit (check_cache (article_cache_key E2 ''comp'' ''Acme_A'')
      (snd (generate_comparative_analysis E2 ''Acme'' ?as w0))) = Some ?rec"
    by (simp add: run key check_cache_def save_to_cache_def cache_hit_def)
  have again: "analyze_article E2 ''comp'' ''Acme_A''
      (snd (generate_comparative_analysis E2 ''Acme'' ?as w0)) =
      (Inr ?rec, snd (generate_comparative_analysis E2 ''Acme'' ?as w0))"
    using hit by (simp add: analyze_article_def)
  show ?thesis
    unfolding again by (simp add: run result_field_def)
qed

subsection \<open>A reply that is not an object\<close>

lemma complete_analysis_non_object:
  assumes "\<forall>d. parsed \<noteq> JObj d"
  shows "complete_analysis E as t avg parsed = Inl TypeError"
  using assms by (cases parsed) (simp_all add: complete_analysis_def)

text \<open>A reply that parses, but not to an object, raises TypeError out of the operation.\<close>

lemma generate_comparative_analysis_non_object:
  assumes "cache_hit (check_cache (comparative_cache_key E cn as) w) = None"
    and "call_api_with_retry E (aggregation_prompt E cn as) w = (Inr response_text, w1)"
    and "json_loads E (strip_fences response_text) = Some parsed"
    and "\<forall>d. parsed \<noteq> JObj d"
  shows "generate_comparative_analysis E cn as w = (Inl TypeError, w1)"
  using assms(2,3) complete_analysis_non_object [OF assms(4)]
  by (simp add: generate_comparative_analysis_miss [OF assms(1)])

text \<open>
  Claim C3. The claim holds for a reply that does not parse, as shown above, but not its
  last clause, that only a failure of the outbound call propagates: the handler covers
  \<^verbatim>\<open>json.JSONDecodeError\<close> alone. Here the call of the model succeeds and its reply
  \<^verbatim>\<open>[]\<close> parses, to a list; the item assignment on the list raises TypeError, which the
  outer handler raises again to the caller, and nothing is returned or stored.
\<close>

theorem aggregate_raises_on_non_object_reply:
  "call_api_with_retry E8 (aggregation_prompt E8 ''Acme'' [titled ''A'']) w0 =
     (Inr ''[]'', w0\<lparr>calls := [(Gemini, aggregation_prompt E8 ''Acme'' [titled ''A''])]\<rparr>)
   \<and> json_loads E8 (strip_fences ''[]'') = Some (JArr [])
   \<and> generate_comparative_analysis E8 ''Acme'' [titled ''A''] w0 =
     (Inl TypeError, w0\<lparr>calls := [(Gemini, aggregation_prompt E8 ''Acme'' [titled ''A''])]\<rparr>)"
proof -
  let ?as = "[titled ''A'']"
  have miss: "cache_hit (check_cache (comparative_cache_key E8 ''Acme'' ?as) w0) = None"
    by (simp add: check_cache_def w0_def cache_hit_def)
  have api: "call_api_with_retry E8 (aggregation_prompt E8 ''Acme'' ?as) w0 =
      (Inr ''[]'', w0\<lparr>calls := [(Gemini, aggregation_prompt E8 ''Acme'' ?as)]\<rparr>)"
    using generate_comparative_analysis_answered [OF miss, of "''[]''"]
    by (simp add: E8_def E2_def w0_def)
  have parse: "json_loads E8 (strip_fences ''[]'') = Some (JArr [])"
    by (simp add: E8_def E2_def strip_fences_examples example_loads_def)
  have "\<forall>d. JArr [] \<noteq> JObj d" by simp
  from generate_comparative_analysis_non_object [OF miss api parse this] api parse
  show ?thesis by simp
qed

end
